theory Spec2Isabelle
  imports Complex_Main
begin

section \<open>Values of the JavaScript runtime\<close>

text \<open>
  The caches of the dashboard hold values typed \<open>any\<close>: whatever \<open>response.json()\<close>
  produced. \<open>jsval\<close> is the part of the runtime's values the program meets: the
  values of parsed JSON, \<open>undefined\<close>, and the built-in objects an object literal
  inherits from \<open>Object.prototype\<close>. A number is given by its exact value (a finite
  double is a rational); \<open>NaN\<close> and the infinities are not values of parsed JSON and
  are left out. An object is the list of its own enumerable properties, read by
  \<open>map_of\<close>.
\<close>

datatype jsval =
    JUndefined
  | JNull
  | JBool bool
  | JNum real
  | JStr string
  | JArr "jsval list"
  | JObj "(string \<times> jsval) list"
  | JBuiltin string

text \<open>What a \<open>throw\<close> carries. \<open>fetch\<close> rejects with a \<open>TypeError\<close>, a property
  read on \<open>null\<close> or \<open>undefined\<close> and a call of a non-function raise one, and
  \<open>response.json()\<close> rejects with a \<open>SyntaxError\<close>; their message texts are the
  engine's and are not modelled.\<close>

datatype js_error = Error string | TypeError | SyntaxError

text \<open>ToBoolean.\<close>

fun truthy :: "jsval \<Rightarrow> bool" where
  "truthy JUndefined = False"
| "truthy JNull = False"
| "truthy (JBool b) = b"
| "truthy (JNum x) = (x \<noteq> 0)"
| "truthy (JStr s) = (s \<noteq> [])"
| "truthy (JArr xs) = True"
| "truthy (JObj kvs) = True"
| "truthy (JBuiltin n) = True"

text \<open>\<open>a || b\<close>.\<close>

definition js_or :: "jsval \<Rightarrow> jsval \<Rightarrow> jsval" where
  "js_or a b = (if truthy a then a else b)"

text \<open>The properties every plain object inherits from \<open>Object.prototype\<close>: built-in
  functions, and under \<open>__proto__\<close> the prototype object itself. None of them has an
  own enumerable property.\<close>

definition object_prototype :: "(string \<times> jsval) list" where
  "object_prototype =
    [(''constructor'', JBuiltin ''Object''),
     (''toString'', JBuiltin ''Object.prototype.toString''),
     (''toLocaleString'', JBuiltin ''Object.prototype.toLocaleString''),
     (''valueOf'', JBuiltin ''Object.prototype.valueOf''),
     (''hasOwnProperty'', JBuiltin ''Object.prototype.hasOwnProperty''),
     (''isPrototypeOf'', JBuiltin ''Object.prototype.isPrototypeOf''),
     (''propertyIsEnumerable'', JBuiltin ''Object.prototype.propertyIsEnumerable''),
     (''__defineGetter__'', JBuiltin ''Object.prototype.__defineGetter__''),
     (''__defineSetter__'', JBuiltin ''Object.prototype.__defineSetter__''),
     (''__lookupGetter__'', JBuiltin ''Object.prototype.__lookupGetter__''),
     (''__lookupSetter__'', JBuiltin ''Object.prototype.__lookupSetter__''),
     (''__proto__'', JBuiltin ''Object.prototype'')]"

text \<open>An own property of a value, as object spread \<open>{...v}\<close> copies it: \<open>undefined\<close>
  where \<open>v\<close> has none of that name. (The names asked for are never array indices.)\<close>

fun own_prop :: "jsval \<Rightarrow> string \<Rightarrow> jsval" where
  "own_prop (JObj kvs) k = (case map_of kvs k of Some v \<Rightarrow> v | None \<Rightarrow> JUndefined)"
| "own_prop v k = JUndefined"

text \<open>The property read \<open>v.k\<close> or \<open>v[k]\<close>: a \<open>TypeError\<close> on \<open>null\<close> and
  \<open>undefined\<close>; on an object the own property, else the inherited one, else
  \<open>undefined\<close>. On numbers, strings, booleans and arrays the program reads only names
  that their prototypes do not define, which gives \<open>undefined\<close>; a built-in is only
  ever spread, never read.\<close>

definition member :: "(string \<times> jsval) list \<Rightarrow> string \<Rightarrow> jsval" where
  "member kvs k =
     (case map_of kvs k of
        Some v \<Rightarrow> v
      | None \<Rightarrow> (case map_of object_prototype k of Some b \<Rightarrow> b | None \<Rightarrow> JUndefined))"

fun get_prop :: "jsval \<Rightarrow> string \<Rightarrow> js_error + jsval" where
  "get_prop JUndefined k = Inl TypeError"
| "get_prop JNull k = Inl TypeError"
| "get_prop (JObj kvs) k = Inr (member kvs k)"
| "get_prop v k = Inr JUndefined"

text \<open>A chain of reads \<open>v.a.b.c\<close>, stopping at the first that throws.\<close>

fun read_path :: "jsval \<Rightarrow> string list \<Rightarrow> js_error + jsval" where
  "read_path v [] = Inr v"
| "read_path v (k # ks) = (case get_prop v k of Inl e \<Rightarrow> Inl e | Inr w \<Rightarrow> read_path w ks)"

text \<open>Sequencing of steps that may throw.\<close>

definition and_then :: "'e + 'a \<Rightarrow> ('a \<Rightarrow> 'e + 'b) \<Rightarrow> 'e + 'b" where
  "and_then r f = (case r of Inl e \<Rightarrow> Inl e | Inr a \<Rightarrow> f a)"

text \<open>The built-ins of the runtime whose results the program uses and whose full
  definition lies outside the repository are taken as parameters: Unicode case mapping
  and white space, the printing of a number, the conversion of a value to a string where
  it is appended to one or given to \<open>new URL\<close> (it throws on an object whose own
  \<open>toString\<close> is not callable), and the host name of a URL (\<open>None\<close> where
  \<open>new URL\<close> throws).\<close>

record runtime =
  toUpperCase :: "string \<Rightarrow> string"
  trim :: "string \<Rightarrow> string"
  number_toString :: "real \<Rightarrow> string"
  to_string :: "jsval \<Rightarrow> js_error + string"
  url_hostname :: "string \<Rightarrow> string option"

text \<open>\<open>v.toUpperCase()\<close>: only a string has the method; an object parsed from JSON
  can hold no function, so the call throws on everything else.\<close>

fun call_toUpperCase :: "runtime \<Rightarrow> jsval \<Rightarrow> js_error + jsval" where
  "call_toUpperCase rt (JStr s) = Inr (JStr (toUpperCase rt s))"
| "call_toUpperCase rt v = Inl TypeError"

section \<open>The network\<close>

text \<open>What \<open>await fetch(...)\<close> gives: the promise rejects (no connection, CORS), or
  a response arrives with its status and its body; \<open>json = None\<close> is a body that
  \<open>response.json()\<close> cannot parse.\<close>

datatype fetch_outcome =
    Rejected
  | Response (ok: bool) (status: nat) (statusText: string) (json: "jsval option")

section \<open>The quote fetcher (useCryptoPrice)\<close>

text \<open>The entry type of both caches of the program, \<open>{ data, timestamp }\<close>.\<close>

record 'a cache_entry =
  data :: 'a
  timestamp :: nat

text \<open>The two module-level maps.\<close>

record quote_store =
  cache :: "string \<rightharpoonup> jsval cache_entry"
  lastSuccessfulPrices :: "string \<rightharpoonup> jsval"

text \<open>The hook's state, interface \<open>CryptoData\<close>; \<open>error = None\<close> is \<open>null\<close>.\<close>

record CryptoData =
  price :: jsval
  priceChange24h :: jsval
  priceChangePercent24h :: jsval
  marketCap :: jsval
  volume24h :: jsval
  dominance :: jsval
  circulatingSupply :: jsval
  loading :: bool
  error :: "string option"
  name :: jsval
  symbol :: jsval

definition CACHE_DURATION :: int where
  "CACHE_DURATION = 60000"

text \<open>\<open>setData({...v, loading: l, error: e})\<close>, read back through the fields of
  \<open>CryptoData\<close>.\<close>

definition spread_data :: "jsval \<Rightarrow> bool \<Rightarrow> string option \<Rightarrow> CryptoData" where
  "spread_data v l e =
    \<lparr>price = own_prop v ''price'',
     priceChange24h = own_prop v ''priceChange24h'',
     priceChangePercent24h = own_prop v ''priceChangePercent24h'',
     marketCap = own_prop v ''marketCap'',
     volume24h = own_prop v ''volume24h'',
     dominance = own_prop v ''dominance'',
     circulatingSupply = own_prop v ''circulatingSupply'',
     loading = l,
     error = e,
     name = own_prop v ''name'',
     symbol = own_prop v ''symbol''\<rparr>"

text \<open>Decimal digits of a natural number, as a template literal prints an integer.\<close>

definition digit_char :: "nat \<Rightarrow> char" where
  "digit_char d =
    (if d = 0 then CHR ''0'' else if d = 1 then CHR ''1'' else if d = 2 then CHR ''2''
     else if d = 3 then CHR ''3'' else if d = 4 then CHR ''4'' else if d = 5 then CHR ''5''
     else if d = 6 then CHR ''6'' else if d = 7 then CHR ''7'' else if d = 8 then CHR ''8''
     else CHR ''9'')"

fun show_nat :: "nat \<Rightarrow> string" where
  "show_nat n = (if n < 10 then [digit_char n] else show_nat (n div 10) @ [digit_char (n mod 10)])"

declare show_nat.simps [simp del]

text \<open>The first request of the \<open>try\<close> block: the market snapshot of the asset. A
  rejected \<open>fetch\<close>, a status outside 200..299 and an unparsable body all throw.\<close>

definition fetch_snapshot :: "fetch_outcome \<Rightarrow> js_error + jsval" where
  "fetch_snapshot response =
    (case response of
       Rejected \<Rightarrow> Inl TypeError
     | Response is_ok st txt body \<Rightarrow>
         if \<not> is_ok then Inl (Error (''HTTP '' @ show_nat st @ '': '' @ txt))
         else (case body of None \<Rightarrow> Inl SyntaxError | Some cryptoData \<Rightarrow> Inr cryptoData))"

text \<open>The second request: the global totals, from which \<open>dominance\<close> is taken. The
  \<open>await fetch\<close> stands unguarded inside the \<open>try\<close> block, so a rejection throws;
  only the status is tested before the body is read.\<close>

definition fetch_dominance :: "string \<Rightarrow> fetch_outcome \<Rightarrow> js_error + jsval" where
  "fetch_dominance cryptoId globalResponse =
    (case globalResponse of
       Rejected \<Rightarrow> Inl TypeError
     | Response is_ok st txt body \<Rightarrow>
         if is_ok then
           (case body of
              None \<Rightarrow> Inl SyntaxError
            | Some globalData \<Rightarrow>
                if cryptoId = ''bitcoin'' then
                  and_then (read_path globalData [''data'', ''market_cap_percentage'', ''btc''])
                    (\<lambda>v. Inr (js_or v (JNum 50)))
                else if cryptoId = ''ethereum'' then
                  and_then (read_path globalData [''data'', ''market_cap_percentage'', ''eth''])
                    (\<lambda>v. Inr (js_or v (JNum 20)))
                else Inr (JNum 0))
         else Inr (JNum 0))"

text \<open>The object literal \<open>newData\<close>, its fields evaluated in the order written.\<close>

definition newData :: "runtime \<Rightarrow> jsval \<Rightarrow> jsval \<Rightarrow> js_error + jsval" where
  "newData rt cryptoData dm =
    and_then (read_path cryptoData [''market_data'', ''current_price'', ''usd'']) (\<lambda>v1.
    and_then (read_path cryptoData [''market_data'', ''price_change_24h'']) (\<lambda>v2.
    and_then (read_path cryptoData [''market_data'', ''price_change_percentage_24h'']) (\<lambda>v3.
    and_then (read_path cryptoData [''market_data'', ''market_cap'', ''usd'']) (\<lambda>v4.
    and_then (read_path cryptoData [''market_data'', ''total_volume'', ''usd'']) (\<lambda>v5.
    and_then (read_path cryptoData [''market_data'', ''circulating_supply'']) (\<lambda>v6.
    and_then (get_prop cryptoData ''name'') (\<lambda>v7.
    and_then (and_then (get_prop cryptoData ''symbol'') (call_toUpperCase rt)) (\<lambda>v8.
      Inr (JObj [(''price'', v1),
                 (''priceChange24h'', v2),
                 (''priceChangePercent24h'', v3),
                 (''marketCap'', v4),
                 (''volume24h'', v5),
                 (''dominance'', dm),
                 (''circulatingSupply'', v6),
                 (''name'', v7),
                 (''symbol'', v8)])))))))))"

text \<open>The \<open>try\<close> block after the cache check, up to \<open>newData\<close>: \<open>Inl\<close> is a
  throw, which the \<open>catch\<close> receives.\<close>

definition live_fetch :: "runtime \<Rightarrow> string \<Rightarrow> fetch_outcome \<Rightarrow> fetch_outcome \<Rightarrow> js_error + jsval" where
  "live_fetch rt cryptoId response globalResponse =
    and_then (fetch_snapshot response) (\<lambda>cryptoData.
    and_then (fetch_dominance cryptoId globalResponse) (\<lambda>dm.
      newData rt cryptoData dm))"

text \<open>The object literal \<open>basicFallback\<close> of the \<open>catch\<close> block.\<close>

definition basicFallback :: "(string \<times> jsval) list" where
  "basicFallback =
    [(''bitcoin'', JObj
       [(''price'', JNum 120000),
        (''priceChange24h'', JNum 1200),
        (''priceChangePercent24h'', JNum 1.01),
        (''marketCap'', JNum 2400000000000),
        (''volume24h'', JNum 28000000000),
        (''dominance'', JNum 52.0),
        (''circulatingSupply'', JNum 19.8),
        (''name'', JStr ''Bitcoin''),
        (''symbol'', JStr ''BTC'')]),
     (''ethereum'', JObj
       [(''price'', JNum 4200),
        (''priceChange24h'', JNum 45),
        (''priceChangePercent24h'', JNum 1.08),
        (''marketCap'', JNum 505000000000),
        (''volume24h'', JNum 15000000000),
        (''dominance'', JNum 19.5),
        (''circulatingSupply'', JNum 120.4),
        (''name'', JStr ''Ethereum''),
        (''symbol'', JStr ''ETH'')]),
     (''solana'', JObj
       [(''price'', JNum 280.00),
        (''priceChange24h'', JNum 8.50),
        (''priceChangePercent24h'', JNum 3.13),
        (''marketCap'', JNum 135000000000),
        (''volume24h'', JNum 4500000000),
        (''dominance'', JNum 0),
        (''circulatingSupply'', JNum 482.5),
        (''name'', JStr ''Solana''),
        (''symbol'', JStr ''SOL'')])]"

text \<open>The \<open>catch\<close> block: the last successful quote if the map has one, else
  \<open>basicFallback[cryptoId] || basicFallback.bitcoin\<close>. It writes to neither map.\<close>

definition fallbackData :: "string \<Rightarrow> jsval" where
  "fallbackData cryptoId = js_or (member basicFallback cryptoId) (member basicFallback ''bitcoin'')"

definition on_failure :: "string \<Rightarrow> quote_store \<Rightarrow> CryptoData" where
  "on_failure cryptoId s =
    (let lastSuccessful =
           (case lastSuccessfulPrices s cryptoId of None \<Rightarrow> JUndefined | Some v \<Rightarrow> v)
     in if truthy lastSuccessful then
          spread_data lastSuccessful False
            (Some ''Using cached data - API temporarily unavailable'')
        else
          spread_data (fallbackData cryptoId) False
            (Some ''Using demo data - API unavailable and no cached data''))"

text \<open>The entry of the freshness cache that answers the call without a request, if
  there is one: \<open>cached && (now - cached.timestamp) < CACHE_DURATION\<close>.\<close>

definition fresh_entry :: "quote_store \<Rightarrow> string \<Rightarrow> nat \<Rightarrow> jsval cache_entry option" where
  "fresh_entry s cryptoId now =
    (case cache s (''crypto-'' @ cryptoId) of
       None \<Rightarrow> None
     | Some cached \<Rightarrow>
         if int now - int (timestamp cached) < CACHE_DURATION then Some cached else None)"

text \<open>\<open>fetchCryptoData\<close>: the asset key of the hook, the value of \<open>Date.now()\<close>, the
  answers the two endpoints would give, and the two maps; it returns the maps and the
  state the last \<open>setData\<close> leaves.\<close>

definition fetchCryptoData ::
  "runtime \<Rightarrow> string \<Rightarrow> nat \<Rightarrow> fetch_outcome \<Rightarrow> fetch_outcome \<Rightarrow> quote_store
     \<Rightarrow> quote_store \<times> CryptoData" where
  "fetchCryptoData rt cryptoId now response globalResponse s =
    (case fresh_entry s cryptoId now of
       Some cached \<Rightarrow> (s, spread_data (data cached) False None)
     | None \<Rightarrow>
         (case live_fetch rt cryptoId response globalResponse of
            Inr nd \<Rightarrow>
              (s\<lparr>cache := (cache s)(''crypto-'' @ cryptoId \<mapsto> \<lparr>data = nd, timestamp = now\<rparr>),
                 lastSuccessfulPrices := (lastSuccessfulPrices s)(cryptoId \<mapsto> nd)\<rparr>,
               spread_data nd False None)
          | Inl e \<Rightarrow> (s, on_failure cryptoId s)))"

text \<open>Two properties of the maps that hold initially and after every call: what
  \<open>lastSuccessfulPrices\<close> holds is an object, and a key of the freshness cache has its
  asset key in \<open>lastSuccessfulPrices\<close>.\<close>

definition quotes_are_objects :: "quote_store \<Rightarrow> bool" where
  "quotes_are_objects s \<longleftrightarrow>
    (\<forall>k v. lastSuccessfulPrices s k = Some v \<longrightarrow> (\<exists>kvs. v = JObj kvs))"

definition cache_backed :: "quote_store \<Rightarrow> bool" where
  "cache_backed s \<longleftrightarrow>
    (\<forall>k. cache s (''crypto-'' @ k) \<noteq> None \<longrightarrow> lastSuccessfulPrices s k \<noteq> None)"

section \<open>A runtime for the examples\<close>

text \<open>On ASCII strings, integral numbers, \<open>null\<close>, \<open>undefined\<close>, booleans, objects
  parsed from JSON, the empty array and plain \<open>https\<close> URLs these are the results of
  the JavaScript built-ins; the examples below use them on such inputs only.\<close>

definition ascii_upper :: "char \<Rightarrow> char" where
  "ascii_upper c =
    (let n = (of_char c :: nat) in if 97 \<le> n \<and> n \<le> 122 then char_of (n - 32) else c)"

definition ascii_space :: "char \<Rightarrow> bool" where
  "ascii_space c = ((of_char c :: nat) \<in> {9, 10, 11, 12, 13, 32})"

definition example_runtime :: runtime where
  "example_runtime =
    \<lparr>toUpperCase = map ascii_upper,
     trim = (\<lambda>s. rev (dropWhile ascii_space (rev (dropWhile ascii_space s)))),
     number_toString =
       (\<lambda>x. if 0 \<le> x then show_nat (nat \<lfloor>x\<rfloor>) else CHR ''-'' # show_nat (nat \<lfloor>- x\<rfloor>)),
     to_string =
       (\<lambda>v. case v of
              JUndefined \<Rightarrow> Inr ''undefined''
            | JNull \<Rightarrow> Inr ''null''
            | JBool b \<Rightarrow> Inr (if b then ''true'' else ''false'')
            | JNum x \<Rightarrow>
                Inr (if 0 \<le> x then show_nat (nat \<lfloor>x\<rfloor>) else CHR ''-'' # show_nat (nat \<lfloor>- x\<rfloor>))
            | JStr s \<Rightarrow> Inr s
            | JArr xs \<Rightarrow> Inr []
            | JObj kvs \<Rightarrow>
                if map_of kvs ''toString'' = None then Inr ''[object Object]'' else Inl TypeError
            | JBuiltin n \<Rightarrow> Inr n),
     url_hostname =
       (\<lambda>u. if take 8 u = ''https://''
            then Some (takeWhile (\<lambda>c. c \<noteq> CHR ''/'') (drop 8 u)) else None)\<rparr>"

definition empty_store :: quote_store where
  "empty_store = \<lparr>cache = Map.empty, lastSuccessfulPrices = Map.empty\<rparr>"

text \<open>Two snapshot bodies of the shape the first endpoint documents.\<close>

definition solana_snapshot :: jsval where
  "solana_snapshot =
    JObj [(''name'', JStr ''Solana''),
          (''symbol'', JStr ''sol''),
          (''market_data'', JObj
             [(''current_price'', JObj [(''usd'', JNum 150)]),
              (''price_change_24h'', JNum 3),
              (''price_change_percentage_24h'', JNum 2),
              (''market_cap'', JObj [(''usd'', JNum 70000000000)]),
              (''total_volume'', JObj [(''usd'', JNum 3000000000)]),
              (''circulating_supply'', JNum 460000000)])]"

definition bitcoin_snapshot :: jsval where
  "bitcoin_snapshot =
    JObj [(''name'', JStr ''Bitcoin''),
          (''symbol'', JStr ''btc''),
          (''market_data'', JObj
             [(''current_price'', JObj [(''usd'', JNum 100000)]),
              (''price_change_24h'', JNum 500),
              (''price_change_percentage_24h'', JNum 0.5),
              (''market_cap'', JObj [(''usd'', JNum 2000000000000)]),
              (''total_volume'', JObj [(''usd'', JNum 30000000000)]),
              (''circulating_supply'', JNum 19800000)])]"

text \<open>The quote that \<open>solana_snapshot\<close> merges to, and the two maps after it is stored
  at time 1000.\<close>

definition solana_quote :: jsval where
  "solana_quote =
    JObj [(''price'', JNum 150), (''priceChange24h'', JNum 3),
          (''priceChangePercent24h'', JNum 2), (''marketCap'', JNum 70000000000),
          (''volume24h'', JNum 3000000000), (''dominance'', JNum 0),
          (''circulatingSupply'', JNum 460000000), (''name'', JStr ''Solana''),
          (''symbol'', JStr ''SOL'')]"

definition solana_store :: quote_store where
  "solana_store =
    \<lparr>cache = [''crypto-solana'' \<mapsto> \<lparr>data = solana_quote, timestamp = 1000\<rparr>],
     lastSuccessfulPrices = [''solana'' \<mapsto> solana_quote]\<rparr>"

text \<open>A body of the global endpoint whose mapping has no \<open>btc\<close> entry.\<close>

definition totals_without_btc :: jsval where
  "totals_without_btc =
     JObj [(''data'', JObj [(''market_cap_percentage'', JObj [(''eth'', JNum 12)])])]"

section \<open>The narrative fetcher (services/aiAnalysis.ts)\<close>

text \<open>Interface \<open>AIAnalysisRequest\<close>, its fields typed \<open>number\<close> as reals. (The
  prefix \<open>req_\<close> keeps the field names apart from those of \<open>CryptoData\<close>.)\<close>

record AIAnalysisRequest =
  cryptoName :: string
  req_symbol :: string
  currentPrice :: real
  req_priceChangePercent24h :: real
  req_marketCap :: real
  req_volume24h :: real

text \<open>An element of \<open>sources\<close>: \<open>title\<close> and \<open>url\<close> are taken from the response
  as they are, \<open>source\<close> is the host name.\<close>

record source_ref =
  title :: jsval
  url :: jsval
  source :: string

text \<open>Interface \<open>AIAnalysisResponse\<close>. Its optional field \<open>error\<close> is never set,
  and \<open>sources\<close> is set by the one place that builds a response.\<close>

record AIAnalysisResponse =
  analysis :: string
  isRealAnalysis :: bool
  sources :: "source_ref list"

text \<open>The two module-level maps. \<open>latestSuccessfulAnalysis\<close> holds
  \<open>{ analysis, timestamp, cryptoData }\<close>, here a triple.\<close>

record narrative_store =
  analysisCache :: "string \<rightharpoonup> AIAnalysisResponse cache_entry"
  latestSuccessfulAnalysis :: "string \<rightharpoonup> string \<times> nat \<times> AIAnalysisRequest"

text \<open>\<open>CACHE_DURATION\<close> of this module (the hook has its own constant of that name).\<close>

definition ANALYSIS_CACHE_DURATION :: int where
  "ANALYSIS_CACHE_DURATION = 300000"

text \<open>\<open>x.toFixed(2)\<close>, as the language defines it on the exact value of \<open>x\<close>: the
  sign, then the integer \<open>n\<close> nearest to \<open>100 * |x|\<close> (the larger one of two), printed
  with a point before its last two digits; from \<open>10^21\<close> on, the number as
  \<open>toString\<close> prints it.\<close>

definition toFixed2 :: "runtime \<Rightarrow> real \<Rightarrow> string" where
  "toFixed2 rt x =
    (if x < 0 then ''-'' else '''') @
    (if 10 ^ 21 \<le> \<bar>x\<bar> then number_toString rt \<bar>x\<bar>
     else (let n = nat \<lfloor>\<bar>x\<bar> * 100 + 1 / 2\<rfloor>
           in show_nat (n div 100) @ ''.'' @ [digit_char (n mod 100 div 10), digit_char (n mod 10)]))"

text \<open>Reading a decimal numeral back.\<close>

definition read_nat :: "string \<Rightarrow> nat" where
  "read_nat s = foldl (\<lambda>a c. 10 * a + (of_char c - 48)) 0 s"

text \<open>The cache key of a request whose first clock reading is \<open>t0\<close>:
  \<open>Math.floor(Date.now() / 300000)\<close> is the integer quotient, the clock being a
  non-negative integer far below \<open>2^53\<close>.\<close>

definition cacheKey :: "runtime \<Rightarrow> AIAnalysisRequest \<Rightarrow> nat \<Rightarrow> string" where
  "cacheKey rt request t0 =
    req_symbol request @ ''-'' @ toFixed2 rt (currentPrice request) @ ''-'' @
    toFixed2 rt (req_priceChangePercent24h request) @ ''-'' @ show_nat (t0 div 300000)"

text \<open>\<open>data.output?.find(item => item.type === 'message')\<close> on an array.\<close>

fun find_message :: "jsval list \<Rightarrow> js_error + jsval" where
  "find_message [] = Inr JUndefined"
| "find_message (item # items) =
     (case get_prop item ''type'' of
        Inl e \<Rightarrow> Inl e
      | Inr t \<Rightarrow> if t = JStr ''message'' then Inr item else find_message items)"

text \<open>The whole expression: \<open>?.\<close> gives \<open>undefined\<close> when \<open>data.output\<close> is
  \<open>null\<close> or \<open>undefined\<close>; a value that is not an array has no callable \<open>find\<close>.\<close>

definition messageOutput :: "jsval \<Rightarrow> js_error + jsval" where
  "messageOutput dat =
    and_then (get_prop dat ''output'') (\<lambda>out.
      case out of
        JUndefined \<Rightarrow> Inr JUndefined
      | JNull \<Rightarrow> Inr JUndefined
      | JArr items \<Rightarrow> find_message items
      | _ \<Rightarrow> Inl TypeError)"

fun is_array :: "jsval \<Rightarrow> bool" where
  "is_array (JArr xs) = True"
| "is_array v = False"

fun array_items :: "jsval \<Rightarrow> jsval list" where
  "array_items (JArr xs) = xs"
| "array_items v = []"

text \<open>The loop over \<open>messageOutput.content\<close>, with the two variables it updates.\<close>

fun extract_text ::
  "runtime \<Rightarrow> jsval list \<Rightarrow> string \<Rightarrow> jsval list \<Rightarrow> js_error + (string \<times> jsval list)" where
  "extract_text rt [] analysisText annotations = Inr (analysisText, annotations)"
| "extract_text rt (contentItem # rest) analysisText annotations =
     and_then (get_prop contentItem ''type'') (\<lambda>ty.
       if ty = JStr ''output_text'' then
         and_then (get_prop contentItem ''text'') (\<lambda>txt.
           if truthy txt then
             and_then (to_string rt txt) (\<lambda>appended.
             and_then (get_prop contentItem ''annotations'') (\<lambda>ann.
               extract_text rt rest (analysisText @ appended)
                 (if truthy ann \<and> is_array ann then array_items ann else annotations)))
           else extract_text rt rest analysisText annotations)
       else extract_text rt rest analysisText annotations)"

text \<open>\<open>new URL(u).hostname\<close>.\<close>

definition hostname :: "runtime \<Rightarrow> jsval \<Rightarrow> js_error + string" where
  "hostname rt u =
    and_then (to_string rt u) (\<lambda>s.
      case url_hostname rt s of None \<Rightarrow> Inl TypeError | Some h \<Rightarrow> Inr h)"

text \<open>\<open>annotations.forEach(...)\<close>, pushing to \<open>sources\<close> in order.\<close>

fun collect_sources :: "runtime \<Rightarrow> jsval list \<Rightarrow> js_error + source_ref list" where
  "collect_sources rt [] = Inr []"
| "collect_sources rt (annotation # rest) =
     and_then (get_prop annotation ''type'') (\<lambda>ty.
       if ty = JStr ''url_citation'' then
         and_then (get_prop annotation ''url_citation'') (\<lambda>citation.
           if truthy citation then
             and_then (get_prop citation ''title'') (\<lambda>t.
             and_then (get_prop citation ''url'') (\<lambda>u.
             and_then (hostname rt u) (\<lambda>h.
             and_then (collect_sources rt rest) (\<lambda>more.
               Inr (\<lparr>title = js_or t (JStr ''Source''), url = u, source = h\<rparr> # more)))))
           else collect_sources rt rest)
       else collect_sources rt rest)"

text \<open>\<open>tryOpenAIWebSearchAPI\<close> from the parsed body on.\<close>

definition parse_analysis :: "runtime \<Rightarrow> jsval \<Rightarrow> js_error + AIAnalysisResponse" where
  "parse_analysis rt dat =
    and_then (messageOutput dat) (\<lambda>msg.
      if \<not> truthy msg then Inl (Error ''Invalid response from OpenAI Web Search API'')
      else
        and_then (get_prop msg ''content'') (\<lambda>content.
          if \<not> truthy content \<or> \<not> is_array content
          then Inl (Error ''Invalid response from OpenAI Web Search API'')
          else
            and_then (extract_text rt (array_items content) [] []) (\<lambda>(analysisText, annotations).
              if trim rt analysisText = []
              then Inl (Error ''No analysis text found in OpenAI response'')
              else
                and_then (collect_sources rt annotations) (\<lambda>srcs.
                  Inr \<lparr>analysis = analysisText, isRealAnalysis = True, sources = srcs\<rparr>))))"

text \<open>The branch \<open>!response.ok\<close>: the body, or the stand-in object when it does not
  parse, gives the message of the error thrown.\<close>

definition api_error :: "runtime \<Rightarrow> nat \<Rightarrow> jsval option \<Rightarrow> js_error" where
  "api_error rt st body =
    (let errorData =
           (case body of
              None \<Rightarrow> JObj [(''error'', JObj [(''message'', JStr ''Unknown error'')])]
            | Some v \<Rightarrow> v);
         thrown =
           and_then (get_prop errorData ''error'') (\<lambda>err.
           and_then (if err = JUndefined \<or> err = JNull then Inr JUndefined
                     else get_prop err ''message'') (\<lambda>m.
           and_then (to_string rt (js_or m (JStr ''Unknown error''))) (\<lambda>text.
             Inl (Error (''OpenAI API error: '' @ show_nat st @ '' - '' @ text)))))
     in case thrown of Inl e \<Rightarrow> e | Inr (u :: unit) \<Rightarrow> TypeError)"

text \<open>\<open>tryOpenAIWebSearchAPI\<close>: the credential of the build, and the answer the
  narrative endpoint would give. The second component counts the requests sent: none
  without a credential, one otherwise. (The prompt is the body of that request; it
  cannot throw and has no part in what is returned.)\<close>

definition tryOpenAIWebSearchAPI ::
  "runtime \<Rightarrow> string option \<Rightarrow> fetch_outcome \<Rightarrow> (js_error + AIAnalysisResponse) \<times> nat" where
  "tryOpenAIWebSearchAPI rt apiKey response =
    (if apiKey = None \<or> apiKey = Some [] then (Inl (Error ''OpenAI API key not configured''), 0)
     else
       (case response of
          Rejected \<Rightarrow> (Inl TypeError, 1)
        | Response is_ok st txt body \<Rightarrow>
            if \<not> is_ok then (Inl (api_error rt st body), 1)
            else (case body of
                    None \<Rightarrow> (Inl SyntaxError, 1)
                  | Some dat \<Rightarrow> (parse_analysis rt dat, 1))))"

definition unavailable :: string where
  "unavailable =
    ''AI analysis service is currently unavailable. '' @
    ''Please check your OpenAI API configuration and try again.''"

text \<open>The entry of the analysis cache that answers the call without a request.\<close>

definition fresh_analysis ::
  "narrative_store \<Rightarrow> string \<Rightarrow> nat \<Rightarrow> AIAnalysisResponse cache_entry option" where
  "fresh_analysis s k now =
    (case analysisCache s k of
       None \<Rightarrow> None
     | Some cached \<Rightarrow>
         if int now - int (timestamp cached) < ANALYSIS_CACHE_DURATION then Some cached else None)"

text \<open>\<open>getAIAnalysis\<close>. The function reads the clock twice: \<open>t0\<close> for the time
  bucket of the key, then \<open>now\<close>. It returns what the promise settles to (\<open>Inl m\<close>:
  rejected with \<open>new Error(m)\<close>), the number of requests it sent, and the maps.\<close>

definition getAIAnalysis ::
  "runtime \<Rightarrow> string option \<Rightarrow> fetch_outcome \<Rightarrow> AIAnalysisRequest \<Rightarrow> nat \<Rightarrow> nat
     \<Rightarrow> narrative_store \<Rightarrow> (string + AIAnalysisResponse) \<times> nat \<times> narrative_store" where
  "getAIAnalysis rt apiKey response request t0 now s =
    (case fresh_analysis s (cacheKey rt request t0) now of
       Some cached \<Rightarrow> (Inr (data cached), 0, s)
     | None \<Rightarrow>
         (case tryOpenAIWebSearchAPI rt apiKey response of
            (Inr webSearchResult, sent) \<Rightarrow>
              if analysis webSearchResult \<noteq> [] then
                (Inr webSearchResult, sent,
                 s\<lparr>latestSuccessfulAnalysis :=
                      (latestSuccessfulAnalysis s)
                        (req_symbol request \<mapsto> (analysis webSearchResult, now, request)),
                    analysisCache :=
                      (analysisCache s)
                        (cacheKey rt request t0 \<mapsto> \<lparr>data = webSearchResult, timestamp = now\<rparr>)\<rparr>)
              else (Inl unavailable, sent, s)
          | (Inl e, sent) \<Rightarrow> (Inl unavailable, sent, s)))"

section \<open>The component (components/AIAnalysis.tsx)\<close>

text \<open>The four pieces of state of the component.\<close>

record analysis_view =
  ui_analysis :: string
  ui_sources :: "source_ref list"
  ui_loading :: bool
  ui_error :: "string option"

text \<open>\<open>fetchAnalysis\<close>, with the props the request is built from. Every value
  \<open>getAIAnalysis\<close> throws is an \<open>Error\<close>, whose message becomes \<open>error\<close>.\<close>

definition fetchAnalysis ::
  "runtime \<Rightarrow> string option \<Rightarrow> fetch_outcome \<Rightarrow> AIAnalysisRequest \<Rightarrow> nat \<Rightarrow> nat
     \<Rightarrow> analysis_view \<times> narrative_store \<Rightarrow> analysis_view \<times> narrative_store" where
  "fetchAnalysis rt apiKey response props t0 now vs =
    (if currentPrice props = 0 \<or> cryptoName props = [] then vs
     else
       (case getAIAnalysis rt apiKey response props t0 now (snd vs) of
          (Inr result, sent, s') \<Rightarrow>
            ((fst vs)\<lparr>ui_analysis := analysis result, ui_sources := sources result,
                      ui_loading := False, ui_error := None\<rparr>, s')
        | (Inl m, sent, s') \<Rightarrow>
            ((fst vs)\<lparr>ui_loading := False, ui_error := Some m\<rparr>, s')))"

section \<open>Examples for the narrative fetcher\<close>

definition empty_narratives :: narrative_store where
  "empty_narratives = \<lparr>analysisCache = Map.empty, latestSuccessfulAnalysis = Map.empty\<rparr>"

definition btc_request :: AIAnalysisRequest where
  "btc_request =
    \<lparr>cryptoName = ''Bitcoin'', req_symbol = ''BTC'', currentPrice = 120000,
     req_priceChangePercent24h = 1.01, req_marketCap = 2400000000000,
     req_volume24h = 28000000000\<rparr>"

text \<open>A response of the narrative endpoint: a web-search call, then the message.\<close>

definition narrative_body :: jsval where
  "narrative_body =
    JObj [(''output'', JArr
      [JObj [(''type'', JStr ''web_search_call'')],
       JObj [(''type'', JStr ''message''),
             (''content'', JArr
               [JObj [(''type'', JStr ''output_text''),
                      (''text'', JStr ''Bitcoin rose.''),
                      (''annotations'', JArr
                        [JObj [(''type'', JStr ''url_citation''),
                               (''url_citation'', JObj
                                 [(''title'', JStr ''News''),
                                  (''url'', JStr ''https://example.com/btc'')])]])]])]])]"

definition narrative_result :: AIAnalysisResponse where
  "narrative_result =
    \<lparr>analysis = ''Bitcoin rose.'', isRealAnalysis = True,
     sources = [\<lparr>title = JStr ''News'', url = JStr ''https://example.com/btc'',
                 source = ''example.com''\<rparr>]\<rparr>"

text \<open>A response whose output list has no message.\<close>

definition search_only_body :: jsval where
  "search_only_body = JObj [(''output'', JArr [JObj [(''type'', JStr ''web_search_call'')]])]"

text \<open>The maps after \<open>btc_request\<close> was answered with \<open>narrative_result\<close> at
  time \<open>t\<close>, and a later request for the same asset whose price and market cap have
  moved by less than a cent's rounding.\<close>

definition btc_cached :: "nat \<Rightarrow> narrative_store" where
  "btc_cached t =
    \<lparr>analysisCache =
       [cacheKey example_runtime btc_request t \<mapsto> \<lparr>data = narrative_result, timestamp = t\<rparr>],
     latestSuccessfulAnalysis = [''BTC'' \<mapsto> (''Bitcoin rose.'', t, btc_request)]\<rparr>"

definition btc_request_moved :: AIAnalysisRequest where
  "btc_request_moved =
    btc_request\<lparr>currentPrice := 120000.004, req_marketCap := 2400000080000\<rparr>"

text \<open>In the words of claim C4, not of the source: the number that \<open>x\<close> rounds to at
  two decimals (half away from zero, as \<open>toFixed\<close> rounds), as a number. The source
  compares the printed texts \<open>toFixed2\<close> instead.\<close>

definition rounded_to_two_decimals :: "real \<Rightarrow> real" where
  "rounded_to_two_decimals x = sgn x * real (nat \<lfloor>\<bar>x\<bar> * 100 + 1 / 2\<rfloor>) / 100"

text \<open>Two requests that differ only in a percent change just above and just below
  zero.\<close>

definition btc_request_up :: AIAnalysisRequest where
  "btc_request_up = btc_request\<lparr>req_priceChangePercent24h := 0.004\<rparr>"

definition btc_request_down :: AIAnalysisRequest where
  "btc_request_down = btc_request\<lparr>req_priceChangePercent24h := - 0.004\<rparr>"

text \<open>The component before the first click.\<close>

definition idle_view :: analysis_view where
  "idle_view = \<lparr>ui_analysis = [], ui_sources = [], ui_loading = False, ui_error = None\<rparr>"

section \<open>The analysis cache over time\<close>

text \<open>Every key of the analysis cache ends in the number of a time bucket that had
  begun by time \<open>T\<close>. This holds of the empty cache and is kept by every call whose
  clock readings are not before \<open>T\<close>.\<close>

definition keys_not_after :: "narrative_store \<Rightarrow> nat \<Rightarrow> bool" where
  "keys_not_after s T \<longleftrightarrow>
    (\<forall>k e. analysisCache s k = Some e \<longrightarrow>
       (\<exists>p b. k = p @ ''-'' @ show_nat b \<and> b * 300000 \<le> T))"

section \<open>Properties of the quote fetcher\<close>

lemma and_then_Inr_iff:
  "and_then r f = Inr b \<longleftrightarrow> (\<exists>a. r = Inr a \<and> f a = Inr b)"
  by (cases r) (simp_all add: and_then_def)

lemma newData_Inr:
  assumes "newData rt cryptoData dm = Inr nd"
  shows "\<exists>v1 v2 v3 v4 v5 v6 v7 v8.
           nd = JObj [(''price'', v1), (''priceChange24h'', v2), (''priceChangePercent24h'', v3),
                      (''marketCap'', v4), (''volume24h'', v5), (''dominance'', dm),
                      (''circulatingSupply'', v6), (''name'', v7), (''symbol'', v8)]"
  using assms unfolding newData_def and_then_Inr_iff by blast

lemma newData_dominance:
  "newData rt cryptoData dm = Inr nd \<Longrightarrow> own_prop nd ''dominance'' = dm"
  by (drule newData_Inr) auto

lemma newData_is_object:
  "newData rt cryptoData dm = Inr nd \<Longrightarrow> \<exists>kvs. nd = JObj kvs"
  by (drule newData_Inr) auto

lemma live_fetch_Inr:
  "live_fetch rt cryptoId response globalResponse = Inr nd \<longleftrightarrow>
     (\<exists>cryptoData dm. fetch_snapshot response = Inr cryptoData
        \<and> fetch_dominance cryptoId globalResponse = Inr dm
        \<and> newData rt cryptoData dm = Inr nd)"
  unfolding live_fetch_def and_then_Inr_iff by blast

text \<open>What the success path stores is always an object, so an entry of
  \<open>lastSuccessfulPrices\<close> passes the test \<open>if (lastSuccessful)\<close>.\<close>

lemma live_fetch_is_object:
  "live_fetch rt cryptoId response globalResponse = Inr nd \<Longrightarrow> \<exists>kvs. nd = JObj kvs"
  unfolding live_fetch_Inr by (blast dest: newData_is_object)

text \<open>The two properties of the maps are kept by every call. In maps that have the
  second one, a key without a fallback entry has no cache entry either, so the call goes
  to the network.\<close>

lemma quotes_are_objects_empty: "quotes_are_objects empty_store"
  by (simp add: quotes_are_objects_def empty_store_def)

lemma quotes_are_objects_fetchCryptoData:
  assumes "quotes_are_objects s"
  shows "quotes_are_objects (fst (fetchCryptoData rt cryptoId now response globalResponse s))"
proof (cases "fresh_entry s cryptoId now")
  case (Some cached)
  with assms show ?thesis by (simp add: fetchCryptoData_def)
next
  case None
  show ?thesis
  proof (cases "live_fetch rt cryptoId response globalResponse")
    case (Inl e)
    with None assms show ?thesis by (simp add: fetchCryptoData_def)
  next
    case (Inr nd)
    then obtain kvs where "nd = JObj kvs" by (blast dest: live_fetch_is_object)
    with None Inr assms show ?thesis
      by (simp add: fetchCryptoData_def quotes_are_objects_def)
  qed
qed

lemma cache_backed_empty: "cache_backed empty_store"
  by (simp add: cache_backed_def empty_store_def)

lemma cache_backed_fetchCryptoData:
  assumes "cache_backed s"
  shows "cache_backed (fst (fetchCryptoData rt cryptoId now response globalResponse s))"
proof (cases "fresh_entry s cryptoId now")
  case (Some cached)
  with assms show ?thesis by (simp add: fetchCryptoData_def)
next
  case None
  show ?thesis
  proof (cases "live_fetch rt cryptoId response globalResponse")
    case (Inl e)
    with None assms show ?thesis by (simp add: fetchCryptoData_def)
  next
    case (Inr nd)
    with None assms show ?thesis
      by (simp add: fetchCryptoData_def cache_backed_def)
  qed
qed

lemma no_fallback_entry_no_fresh_entry:
  "cache_backed s \<Longrightarrow> lastSuccessfulPrices s cryptoId = None \<Longrightarrow>
   fresh_entry s cryptoId now = None"
  by (auto simp add: cache_backed_def fresh_entry_def split: option.splits)

text \<open>The state that \<open>setData({...newData, loading, error})\<close> leaves, field by
  field.\<close>

lemma spread_of_newData:
  assumes "newData rt cryptoData dm = Inr nd"
  shows "\<exists>v1 v2 v3 v4 v5 v6 v7 v8.
           nd = JObj [(''price'', v1), (''priceChange24h'', v2), (''priceChangePercent24h'', v3),
                      (''marketCap'', v4), (''volume24h'', v5), (''dominance'', dm),
                      (''circulatingSupply'', v6), (''name'', v7), (''symbol'', v8)]
         \<and> spread_data nd l e =
               \<lparr>price = v1, priceChange24h = v2, priceChangePercent24h = v3,
                  marketCap = v4, volume24h = v5, dominance = dm,
                  circulatingSupply = v6, loading = l, error = e,
                  name = v7, symbol = v8\<rparr>"
proof -
  from newData_Inr [OF assms] obtain v1 v2 v3 v4 v5 v6 v7 v8 where
    nd: "nd = JObj [(''price'', v1), (''priceChange24h'', v2), (''priceChangePercent24h'', v3),
                      (''marketCap'', v4), (''volume24h'', v5), (''dominance'', dm),
                      (''circulatingSupply'', v6), (''name'', v7), (''symbol'', v8)]"
    by blast
  have "spread_data nd l e =
               \<lparr>price = v1, priceChange24h = v2, priceChangePercent24h = v3,
                  marketCap = v4, volume24h = v5, dominance = dm,
                  circulatingSupply = v6, loading = l, error = e,
                  name = v7, symbol = v8\<rparr>"
    unfolding nd by (simp add: spread_data_def)
  with nd show ?thesis by blast
qed

text \<open>The three entries of \<open>basicFallback\<close>, as the \<open>catch\<close> block hands them to
  \<open>setData\<close>.\<close>

lemma demo_state_bitcoin:
  "spread_data (fallbackData ''bitcoin'') False
     (Some ''Using demo data - API unavailable and no cached data'') =
   \<lparr>price = JNum 120000, priceChange24h = JNum 1200,
    priceChangePercent24h = JNum 1.01, marketCap = JNum 2400000000000,
    volume24h = JNum 28000000000, dominance = JNum 52,
    circulatingSupply = JNum 19.8, loading = False,
    error = Some ''Using demo data - API unavailable and no cached data'',
    name = JStr ''Bitcoin'', symbol = JStr ''BTC''\<rparr>"
  by (simp add: fallbackData_def basicFallback_def member_def js_or_def spread_data_def)

lemma demo_state_ethereum:
  "spread_data (fallbackData ''ethereum'') False
     (Some ''Using demo data - API unavailable and no cached data'') =
   \<lparr>price = JNum 4200, priceChange24h = JNum 45,
    priceChangePercent24h = JNum 1.08, marketCap = JNum 505000000000,
    volume24h = JNum 15000000000, dominance = JNum 19.5,
    circulatingSupply = JNum 120.4, loading = False,
    error = Some ''Using demo data - API unavailable and no cached data'',
    name = JStr ''Ethereum'', symbol = JStr ''ETH''\<rparr>"
  by (simp add: fallbackData_def basicFallback_def member_def js_or_def spread_data_def)

lemma demo_state_solana:
  "spread_data (fallbackData ''solana'') False
     (Some ''Using demo data - API unavailable and no cached data'') =
   \<lparr>price = JNum 280, priceChange24h = JNum 8.5,
    priceChangePercent24h = JNum 3.13, marketCap = JNum 135000000000,
    volume24h = JNum 4500000000, dominance = JNum 0,
    circulatingSupply = JNum 482.5, loading = False,
    error = Some ''Using demo data - API unavailable and no cached data'',
    name = JStr ''Solana'', symbol = JStr ''SOL''\<rparr>"
  by (simp add: fallbackData_def basicFallback_def member_def js_or_def spread_data_def)

text \<open>
  Claim C1. When no fresh cache entry answers the call, the live fetch throws and
  \<open>lastSuccessfulPrices\<close> has no entry for the asset key, the hook's state is the spread
  of \<open>basicFallback[cryptoId] || basicFallback.bitcoin\<close> with the notice
  "Using demo data - API unavailable and no cached data", and both maps are as before.
  For each of the three supported keys that value is the key's own entry of
  \<open>basicFallback\<close>, and the state is written out for each: for \<open>bitcoin\<close> it has
  price 120000, percent change 1.01, name "Bitcoin" and symbol "BTC"; for \<open>ethereum\<close>
  price 4200, percent change 1.08, "Ethereum", "ETH"; for \<open>solana\<close> price 280, percent
  change 3.13, "Solana", "SOL".
\<close>

theorem C1_demo_default_without_fallback_entry:
  assumes "fresh_entry s cryptoId now = None"
      and "live_fetch rt cryptoId response globalResponse = Inl e"
      and "lastSuccessfulPrices s cryptoId = None"
  shows "fetchCryptoData rt cryptoId now response globalResponse s =
           (s, spread_data (fallbackData cryptoId) False
                 (Some ''Using demo data - API unavailable and no cached data''))
       \<and> (cryptoId \<in> {''bitcoin'', ''ethereum'', ''solana''} \<longrightarrow>
            map_of basicFallback cryptoId = Some (fallbackData cryptoId))
       \<and> (cryptoId = ''bitcoin'' \<longrightarrow>
            snd (fetchCryptoData rt cryptoId now response globalResponse s) =
              \<lparr>price = JNum 120000, priceChange24h = JNum 1200,
               priceChangePercent24h = JNum 1.01, marketCap = JNum 2400000000000,
               volume24h = JNum 28000000000, dominance = JNum 52,
               circulatingSupply = JNum 19.8, loading = False,
               error = Some ''Using demo data - API unavailable and no cached data'',
               name = JStr ''Bitcoin'', symbol = JStr ''BTC''\<rparr>)
       \<and> (cryptoId = ''ethereum'' \<longrightarrow>
            snd (fetchCryptoData rt cryptoId now response globalResponse s) =
              \<lparr>price = JNum 4200, priceChange24h = JNum 45,
               priceChangePercent24h = JNum 1.08, marketCap = JNum 505000000000,
               volume24h = JNum 15000000000, dominance = JNum 19.5,
               circulatingSupply = JNum 120.4, loading = False,
               error = Some ''Using demo data - API unavailable and no cached data'',
               name = JStr ''Ethereum'', symbol = JStr ''ETH''\<rparr>)
       \<and> (cryptoId = ''solana'' \<longrightarrow>
            snd (fetchCryptoData rt cryptoId now response globalResponse s) =
              \<lparr>price = JNum 280, priceChange24h = JNum 8.5,
               priceChangePercent24h = JNum 3.13, marketCap = JNum 135000000000,
               volume24h = JNum 4500000000, dominance = JNum 0,
               circulatingSupply = JNum 482.5, loading = False,
               error = Some ''Using demo data - API unavailable and no cached data'',
               name = JStr ''Solana'', symbol = JStr ''SOL''\<rparr>)"
proof -
  have run: "fetchCryptoData rt cryptoId now response globalResponse s =
           (s, spread_data (fallbackData cryptoId) False
                 (Some ''Using demo data - API unavailable and no cached data''))"
    using assms by (simp add: fetchCryptoData_def on_failure_def)
  have table: "cryptoId \<in> {''bitcoin'', ''ethereum'', ''solana''} \<longrightarrow>
            map_of basicFallback cryptoId = Some (fallbackData cryptoId)"
    by (auto simp add: fallbackData_def basicFallback_def member_def js_or_def)
  have bit: "cryptoId = ''bitcoin'' \<longrightarrow>
            snd (fetchCryptoData rt cryptoId now response globalResponse s) =
              \<lparr>price = JNum 120000, priceChange24h = JNum 1200,
               priceChangePercent24h = JNum 1.01, marketCap = JNum 2400000000000,
               volume24h = JNum 28000000000, dominance = JNum 52,
               circulatingSupply = JNum 19.8, loading = False,
               error = Some ''Using demo data - API unavailable and no cached data'',
               name = JStr ''Bitcoin'', symbol = JStr ''BTC''\<rparr>"
    using run demo_state_bitcoin by auto
  have eth: "cryptoId = ''ethereum'' \<longrightarrow>
            snd (fetchCryptoData rt cryptoId now response globalResponse s) =
              \<lparr>price = JNum 4200, priceChange24h = JNum 45,
               priceChangePercent24h = JNum 1.08, marketCap = JNum 505000000000,
               volume24h = JNum 15000000000, dominance = JNum 19.5,
               circulatingSupply = JNum 120.4, loading = False,
               error = Some ''Using demo data - API unavailable and no cached data'',
               name = JStr ''Ethereum'', symbol = JStr ''ETH''\<rparr>"
    using run demo_state_ethereum by auto
  have sol: "cryptoId = ''solana'' \<longrightarrow>
            snd (fetchCryptoData rt cryptoId now response globalResponse s) =
              \<lparr>price = JNum 280, priceChange24h = JNum 8.5,
               priceChangePercent24h = JNum 3.13, marketCap = JNum 135000000000,
               volume24h = JNum 4500000000, dominance = JNum 0,
               circulatingSupply = JNum 482.5, loading = False,
               error = Some ''Using demo data - API unavailable and no cached data'',
               name = JStr ''Solana'', symbol = JStr ''SOL''\<rparr>"
    using run demo_state_solana by auto
  from run table bit eth sol show ?thesis by (intro conjI)
qed

theorem C1_witness_bitcoin_empty_store:
  "fresh_entry empty_store ''bitcoin'' 0 = None
   \<and> live_fetch example_runtime ''bitcoin'' Rejected Rejected = Inl TypeError
   \<and> lastSuccessfulPrices empty_store ''bitcoin'' = None
   \<and> fetchCryptoData example_runtime ''bitcoin'' 0 Rejected Rejected empty_store =
       (empty_store,
        \<lparr>price = JNum 120000, priceChange24h = JNum 1200,
         priceChangePercent24h = JNum 1.01, marketCap = JNum 2400000000000,
         volume24h = JNum 28000000000, dominance = JNum 52,
         circulatingSupply = JNum 19.8, loading = False,
         error = Some ''Using demo data - API unavailable and no cached data'',
         name = JStr ''Bitcoin'', symbol = JStr ''BTC''\<rparr>)
   \<and> fresh_entry empty_store ''ethereum'' 0 = None
   \<and> live_fetch example_runtime ''ethereum'' Rejected Rejected = Inl TypeError
   \<and> lastSuccessfulPrices empty_store ''ethereum'' = None
   \<and> fetchCryptoData example_runtime ''ethereum'' 0 Rejected Rejected empty_store =
       (empty_store,
        \<lparr>price = JNum 4200, priceChange24h = JNum 45,
         priceChangePercent24h = JNum 1.08, marketCap = JNum 505000000000,
         volume24h = JNum 15000000000, dominance = JNum 19.5,
         circulatingSupply = JNum 120.4, loading = False,
         error = Some ''Using demo data - API unavailable and no cached data'',
         name = JStr ''Ethereum'', symbol = JStr ''ETH''\<rparr>)"
proof -
  have a: "fresh_entry empty_store k 0 = None" for k
    by (simp add: fresh_entry_def empty_store_def)
  have b: "live_fetch example_runtime k Rejected Rejected = Inl TypeError" for k
    by (simp add: live_fetch_def fetch_snapshot_def and_then_def)
  have c: "lastSuccessfulPrices empty_store k = None" for k
    by (simp add: empty_store_def)
  have f: "fst (fetchCryptoData example_runtime k 0 Rejected Rejected empty_store) =
      empty_store" for k
    using C1_demo_default_without_fallback_entry [OF a b c, of k] by simp
  have v: "snd (fetchCryptoData example_runtime ''bitcoin'' 0 Rejected Rejected empty_store) =
        \<lparr>price = JNum 120000, priceChange24h = JNum 1200,
         priceChangePercent24h = JNum 1.01, marketCap = JNum 2400000000000,
         volume24h = JNum 28000000000, dominance = JNum 52,
         circulatingSupply = JNum 19.8, loading = False,
         error = Some ''Using demo data - API unavailable and no cached data'',
         name = JStr ''Bitcoin'', symbol = JStr ''BTC''\<rparr>"
    using C1_demo_default_without_fallback_entry [OF a b c, of "''bitcoin''"] by blast
  have w: "snd (fetchCryptoData example_runtime ''ethereum'' 0 Rejected Rejected empty_store) =
        \<lparr>price = JNum 4200, priceChange24h = JNum 45,
         priceChangePercent24h = JNum 1.08, marketCap = JNum 505000000000,
         volume24h = JNum 15000000000, dominance = JNum 19.5,
         circulatingSupply = JNum 120.4, loading = False,
         error = Some ''Using demo data - API unavailable and no cached data'',
         name = JStr ''Ethereum'', symbol = JStr ''ETH''\<rparr>"
    using C1_demo_default_without_fallback_entry [OF a b c, of "''ethereum''"] by blast
  show ?thesis using a b c f v w by (simp add: prod_eq_iff)
qed

text \<open>Evaluations used by the examples.\<close>

lemma upper_sol: "toUpperCase example_runtime ''sol'' = ''SOL''"
  by code_simp

lemma solana_live:
  "live_fetch example_runtime ''solana'' (Response True 200 ''OK'' (Some solana_snapshot))
      (Response False 429 ''Too Many Requests'' None) = Inr solana_quote"
  by (simp add: live_fetch_def fetch_snapshot_def fetch_dominance_def newData_def and_then_def
      solana_snapshot_def solana_quote_def member_def object_prototype_def upper_sol)

text \<open>
  Claim C2. When no fresh cache entry answers the call, the live fetch throws and
  \<open>lastSuccessfulPrices\<close> holds a quote for the asset key, both maps are returned as
  they were, and the hook's state is exactly that quote: each of its nine fields is the
  stored object's property of that name, \<open>loading\<close> is false, and \<open>error\<close> is the
  notice "Using cached data - API temporarily unavailable" (not the demo notice, not
  the demo default).
\<close>

theorem C2_fallback_entry_returned_read_only:
  assumes "fresh_entry s cryptoId now = None"
      and "live_fetch rt cryptoId response globalResponse = Inl e"
      and "lastSuccessfulPrices s cryptoId = Some (JObj kvs)"
  shows "fetchCryptoData rt cryptoId now response globalResponse s =
           (s, spread_data (JObj kvs) False
                 (Some ''Using cached data - API temporarily unavailable''))
       \<and> error (snd (fetchCryptoData rt cryptoId now response globalResponse s)) \<noteq>
           Some ''Using demo data - API unavailable and no cached data''
       \<and> fst (fetchCryptoData rt cryptoId now response globalResponse s) = s
       \<and> snd (fetchCryptoData rt cryptoId now response globalResponse s) =
             \<lparr>price = (case map_of kvs ''price'' of Some v \<Rightarrow> v | None \<Rightarrow> JUndefined),
               priceChange24h = (case map_of kvs ''priceChange24h'' of Some v \<Rightarrow> v | None \<Rightarrow> JUndefined),
               priceChangePercent24h = (case map_of kvs ''priceChangePercent24h'' of Some v \<Rightarrow> v | None \<Rightarrow> JUndefined),
               marketCap = (case map_of kvs ''marketCap'' of Some v \<Rightarrow> v | None \<Rightarrow> JUndefined),
               volume24h = (case map_of kvs ''volume24h'' of Some v \<Rightarrow> v | None \<Rightarrow> JUndefined),
               dominance = (case map_of kvs ''dominance'' of Some v \<Rightarrow> v | None \<Rightarrow> JUndefined),
               circulatingSupply = (case map_of kvs ''circulatingSupply'' of Some v \<Rightarrow> v | None \<Rightarrow> JUndefined),
               loading = False,
               error = Some ''Using cached data - API temporarily unavailable'',
               name = (case map_of kvs ''name'' of Some v \<Rightarrow> v | None \<Rightarrow> JUndefined),
               symbol = (case map_of kvs ''symbol'' of Some v \<Rightarrow> v | None \<Rightarrow> JUndefined)\<rparr>"
  using assms by (simp add: fetchCryptoData_def on_failure_def spread_data_def)

theorem C2_witness_solana_rate_limited:
  "fresh_entry solana_store ''solana'' 200000 = None
   \<and> live_fetch example_runtime ''solana'' (Response False 429 ''Too Many Requests'' None) Rejected
       = Inl (Error ''HTTP 429: Too Many Requests'')
   \<and> lastSuccessfulPrices solana_store ''solana'' = Some solana_quote
   \<and> fetchCryptoData example_runtime ''solana'' 200000
         (Response False 429 ''Too Many Requests'' None) Rejected solana_store =
       (solana_store,
        \<lparr>price = JNum 150, priceChange24h = JNum 3,
         priceChangePercent24h = JNum 2, marketCap = JNum 70000000000,
         volume24h = JNum 3000000000, dominance = JNum 0,
         circulatingSupply = JNum 460000000, loading = False,
         error = Some ''Using cached data - API temporarily unavailable'',
         name = JStr ''Solana'', symbol = JStr ''SOL''\<rparr>)"
proof -
  have a: "fresh_entry solana_store ''solana'' 200000 = None"
    by (simp add: fresh_entry_def solana_store_def CACHE_DURATION_def)
  have n: "show_nat 429 = ''429''"
    by (simp add: show_nat.simps digit_char_def)
  have b: "live_fetch example_runtime ''solana'' (Response False 429 ''Too Many Requests'' None)
             Rejected = Inl (Error ''HTTP 429: Too Many Requests'')"
    by (simp add: live_fetch_def fetch_snapshot_def and_then_def n)
  have c: "lastSuccessfulPrices solana_store ''solana'' =
      Some (JObj [(''price'', JNum 150), (''priceChange24h'', JNum 3),
          (''priceChangePercent24h'', JNum 2), (''marketCap'', JNum 70000000000),
          (''volume24h'', JNum 3000000000), (''dominance'', JNum 0),
          (''circulatingSupply'', JNum 460000000), (''name'', JStr ''Solana''),
          (''symbol'', JStr ''SOL'')])"
    by (simp add: solana_store_def solana_quote_def)
  have r: "fetchCryptoData example_runtime ''solana'' 200000
         (Response False 429 ''Too Many Requests'' None) Rejected solana_store =
       (solana_store, spread_data (JObj [(''price'', JNum 150), (''priceChange24h'', JNum 3),
          (''priceChangePercent24h'', JNum 2), (''marketCap'', JNum 70000000000),
          (''volume24h'', JNum 3000000000), (''dominance'', JNum 0),
          (''circulatingSupply'', JNum 460000000), (''name'', JStr ''Solana''),
          (''symbol'', JStr ''SOL'')]) False
                 (Some ''Using cached data - API temporarily unavailable''))"
    using C2_fallback_entry_returned_read_only [OF a b c] by blast
  show ?thesis using a b c unfolding r by (simp add: spread_data_def solana_quote_def)
qed

text \<open>
  Claim C3. When no fresh cache entry answers the call and the live fetch returns the
  merged quote \<open>nd\<close>, the call stores \<open>nd\<close> in the freshness cache (with the time of
  the call) and in \<open>lastSuccessfulPrices\<close>, changes nothing else, and the hook's state
  is \<open>nd\<close> with \<open>error = null\<close>: \<open>nd\<close> is an object of the nine quote fields, and
  each field of the state is the value \<open>nd\<close> has under that name.
\<close>

theorem C3_success_writes_both_maps:
  assumes "fresh_entry s cryptoId now = None"
      and "live_fetch rt cryptoId response globalResponse = Inr nd"
  shows "fetchCryptoData rt cryptoId now response globalResponse s =
           (s\<lparr>cache := (cache s)(''crypto-'' @ cryptoId \<mapsto> \<lparr>data = nd, timestamp = now\<rparr>),
              lastSuccessfulPrices := (lastSuccessfulPrices s)(cryptoId \<mapsto> nd)\<rparr>,
            spread_data nd False None)
       \<and> cache (fst (fetchCryptoData rt cryptoId now response globalResponse s))
            (''crypto-'' @ cryptoId) = Some \<lparr>data = nd, timestamp = now\<rparr>
       \<and> lastSuccessfulPrices (fst (fetchCryptoData rt cryptoId now response globalResponse s))
            cryptoId = Some nd
       \<and> error (snd (fetchCryptoData rt cryptoId now response globalResponse s)) = None
       \<and> (\<exists>v1 v2 v3 v4 v5 v6 v7 v8 dm.
             nd = JObj [(''price'', v1), (''priceChange24h'', v2), (''priceChangePercent24h'', v3),
                      (''marketCap'', v4), (''volume24h'', v5), (''dominance'', dm),
                      (''circulatingSupply'', v6), (''name'', v7), (''symbol'', v8)]
           \<and> snd (fetchCryptoData rt cryptoId now response globalResponse s) =
               \<lparr>price = v1, priceChange24h = v2, priceChangePercent24h = v3,
                  marketCap = v4, volume24h = v5, dominance = dm,
                  circulatingSupply = v6, loading = False, error = None,
                  name = v7, symbol = v8\<rparr>)"
proof -
  have main: "fetchCryptoData rt cryptoId now response globalResponse s =
           (s\<lparr>cache := (cache s)(''crypto-'' @ cryptoId \<mapsto> \<lparr>data = nd, timestamp = now\<rparr>),
              lastSuccessfulPrices := (lastSuccessfulPrices s)(cryptoId \<mapsto> nd)\<rparr>,
            spread_data nd False None)
       \<and> cache (fst (fetchCryptoData rt cryptoId now response globalResponse s))
            (''crypto-'' @ cryptoId) = Some \<lparr>data = nd, timestamp = now\<rparr>
       \<and> lastSuccessfulPrices (fst (fetchCryptoData rt cryptoId now response globalResponse s))
            cryptoId = Some nd
       \<and> error (snd (fetchCryptoData rt cryptoId now response globalResponse s)) = None"
    using assms by (simp add: fetchCryptoData_def spread_data_def)
  then have state: "snd (fetchCryptoData rt cryptoId now response globalResponse s) =
      spread_data nd False None"
    by simp
  from assms(2) obtain cryptoData dm where "newData rt cryptoData dm = Inr nd"
    unfolding live_fetch_Inr by blast
  from spread_of_newData [OF this, of False None]
  have fields: "\<exists>v1 v2 v3 v4 v5 v6 v7 v8 dm.
             nd = JObj [(''price'', v1), (''priceChange24h'', v2), (''priceChangePercent24h'', v3),
                      (''marketCap'', v4), (''volume24h'', v5), (''dominance'', dm),
                      (''circulatingSupply'', v6), (''name'', v7), (''symbol'', v8)]
           \<and> snd (fetchCryptoData rt cryptoId now response globalResponse s) =
               \<lparr>price = v1, priceChange24h = v2, priceChangePercent24h = v3,
                  marketCap = v4, volume24h = v5, dominance = dm,
                  circulatingSupply = v6, loading = False, error = None,
                  name = v7, symbol = v8\<rparr>"
    unfolding state by blast
  from main fields show ?thesis by (intro conjI) blast+
qed

theorem C3_witness_solana_first_fetch:
  "fresh_entry empty_store ''solana'' 1000 = None
   \<and> live_fetch example_runtime ''solana'' (Response True 200 ''OK'' (Some solana_snapshot))
        (Response False 429 ''Too Many Requests'' None) = Inr solana_quote
   \<and> fetchCryptoData example_runtime ''solana'' 1000
        (Response True 200 ''OK'' (Some solana_snapshot))
        (Response False 429 ''Too Many Requests'' None) empty_store =
       (solana_store,
        \<lparr>price = JNum 150, priceChange24h = JNum 3,
         priceChangePercent24h = JNum 2, marketCap = JNum 70000000000,
         volume24h = JNum 3000000000, dominance = JNum 0,
         circulatingSupply = JNum 460000000, loading = False,
         error = None,
         name = JStr ''Solana'', symbol = JStr ''SOL''\<rparr>)"
proof -
  have a: "fresh_entry empty_store ''solana'' 1000 = None"
    by (simp add: fresh_entry_def empty_store_def)
  have r: "fetchCryptoData example_runtime ''solana'' 1000
        (Response True 200 ''OK'' (Some solana_snapshot))
        (Response False 429 ''Too Many Requests'' None) empty_store =
        (empty_store\<lparr>cache := (cache empty_store)(''crypto-'' @ ''solana'' \<mapsto> \<lparr>data = solana_quote, timestamp = 1000\<rparr>),
              lastSuccessfulPrices := (lastSuccessfulPrices empty_store)(''solana'' \<mapsto> solana_quote)\<rparr>,
            spread_data solana_quote False None)"
    using C3_success_writes_both_maps [OF a solana_live] by blast
  show ?thesis using a solana_live unfolding r
    by (simp add: spread_data_def solana_quote_def solana_store_def empty_store_def)
qed

text \<open>How \<open>dominance\<close> is chosen.\<close>

lemma fetch_dominance_other:
  "cryptoId \<noteq> ''bitcoin'' \<Longrightarrow> cryptoId \<noteq> ''ethereum'' \<Longrightarrow>
   fetch_dominance cryptoId globalResponse = Inr dm \<Longrightarrow> dm = JNum 0"
  by (cases globalResponse) (auto simp add: fetch_dominance_def split: if_splits option.splits)

lemma fetch_dominance_status:
  "fetch_dominance cryptoId (Response False st txt body) = Inr (JNum 0)"
  by (simp add: fetch_dominance_def)

lemma fetch_dominance_bitcoin:
  "fetch_dominance ''bitcoin'' (Response True st txt (Some g)) = Inr dm \<Longrightarrow>
   read_path g [''data'', ''market_cap_percentage'', ''btc''] = Inr v \<Longrightarrow> dm = js_or v (JNum 50)"
  by (simp add: fetch_dominance_def and_then_def)

lemma fetch_dominance_ethereum:
  "fetch_dominance ''ethereum'' (Response True st txt (Some g)) = Inr dm \<Longrightarrow>
   read_path g [''data'', ''market_cap_percentage'', ''eth''] = Inr v \<Longrightarrow> dm = js_or v (JNum 20)"
  by (simp add: fetch_dominance_def and_then_def)

lemma fetch_dominance_kinds:
  assumes "fetch_dominance cryptoId globalResponse = Inr dm"
  shows "(\<exists>st' txt' body'. globalResponse = Response False st' txt' body')
       \<or> (\<exists>st' txt' g'. globalResponse = Response True st' txt' (Some g')
             \<and> (cryptoId = ''bitcoin'' \<longrightarrow>
                   (\<exists>v'. read_path g' [''data'', ''market_cap_percentage'', ''btc''] = Inr v'))
             \<and> (cryptoId = ''ethereum'' \<longrightarrow>
                   (\<exists>v'. read_path g' [''data'', ''market_cap_percentage'', ''eth''] = Inr v')))"
proof (cases globalResponse)
  case Rejected
  with assms show ?thesis by (simp add: fetch_dominance_def)
next
  case (Response is_ok st' txt' body')
  show ?thesis
  proof (cases is_ok)
    case False
    with Response show ?thesis by simp
  next
    case True
    with Response assms obtain g' where b: "body' = Some g'"
      by (cases body') (simp_all add: fetch_dominance_def)
    have "cryptoId = ''bitcoin'' \<longrightarrow>
        (\<exists>v'. read_path g' [''data'', ''market_cap_percentage'', ''btc''] = Inr v')"
      using assms Response True b
      by (cases "read_path g' [''data'', ''market_cap_percentage'', ''btc'']")
         (auto simp add: fetch_dominance_def and_then_def)
    moreover have "cryptoId = ''ethereum'' \<longrightarrow>
        (\<exists>v'. read_path g' [''data'', ''market_cap_percentage'', ''eth''] = Inr v')"
      using assms Response True b
      by (cases "read_path g' [''data'', ''market_cap_percentage'', ''eth'']")
         (auto simp add: fetch_dominance_def and_then_def)
    ultimately show ?thesis using Response True b by simp
  qed
qed

lemma dominance_of_success:
  assumes "fresh_entry s cryptoId now = None"
      and "live_fetch rt cryptoId response globalResponse = Inr nd"
  shows "\<exists>dm. fetch_dominance cryptoId globalResponse = Inr dm \<and>
           dominance (snd (fetchCryptoData rt cryptoId now response globalResponse s)) = dm"
proof -
  from assms(2) obtain cryptoData dm where
    d: "fetch_dominance cryptoId globalResponse = Inr dm" and n: "newData rt cryptoData dm = Inr nd"
    unfolding live_fetch_Inr by blast
  have "dominance (snd (fetchCryptoData rt cryptoId now response globalResponse s)) =
          own_prop nd ''dominance''"
    using assms by (simp add: fetchCryptoData_def spread_data_def)
  with d n show ?thesis by (simp add: newData_dominance)
qed

lemma upper_btc: "toUpperCase example_runtime ''btc'' = ''BTC''"
  by code_simp

lemma bitcoin_live_without_btc:
  "live_fetch example_runtime ''bitcoin'' (Response True 200 ''OK'' (Some bitcoin_snapshot))
      (Response True 200 ''OK'' (Some totals_without_btc)) =
   Inr (JObj [(''price'', JNum 100000), (''priceChange24h'', JNum 500),
          (''priceChangePercent24h'', JNum 0.5), (''marketCap'', JNum 2000000000000),
          (''volume24h'', JNum 30000000000), (''dominance'', JNum 50),
          (''circulatingSupply'', JNum 19800000), (''name'', JStr ''Bitcoin''),
          (''symbol'', JStr ''BTC'')])"
  by (simp add: live_fetch_def fetch_snapshot_def fetch_dominance_def newData_def and_then_def
      bitcoin_snapshot_def totals_without_btc_def member_def object_prototype_def upper_btc js_or_def)

lemma solana_newData:
  "newData example_runtime solana_snapshot (JNum 0) = Inr solana_quote"
  by (simp add: newData_def and_then_def solana_snapshot_def solana_quote_def member_def
      object_prototype_def upper_sol)

text \<open>
  Claim C5, as amended. On a successful quote fetch, every asset key other than
  \<open>bitcoin\<close> and \<open>ethereum\<close> gets dominance 0 whatever the global payload holds, so
  only those two keys can get a non-zero dominance. When the global-totals response is
  ok, the value for \<open>bitcoin\<close> is the payload's \<open>btc\<close> entry, or 50 when that entry is
  missing or falsy, and for \<open>ethereum\<close> it is the \<open>eth\<close> entry, or 20 when that entry
  is missing or falsy. When the global-totals response has a non-success status, the
  dominance is 0 for every key, these two included. (No other kind of global-totals
  response leaves the fetch successful.)
\<close>

theorem C5_dominance_by_asset_key:
  assumes "fresh_entry s cryptoId now = None"
      and "live_fetch rt cryptoId response globalResponse = Inr nd"
  shows "(cryptoId \<noteq> ''bitcoin'' \<and> cryptoId \<noteq> ''ethereum'' \<longrightarrow>
            dominance (snd (fetchCryptoData rt cryptoId now response globalResponse s)) = JNum 0)
       \<and> (dominance (snd (fetchCryptoData rt cryptoId now response globalResponse s)) \<noteq> JNum 0 \<longrightarrow>
            cryptoId = ''bitcoin'' \<or> cryptoId = ''ethereum'')
       \<and> (cryptoId = ''bitcoin'' \<and> globalResponse = Response True st txt (Some g)
            \<and> read_path g [''data'', ''market_cap_percentage'', ''btc''] = Inr v \<longrightarrow>
            dominance (snd (fetchCryptoData rt cryptoId now response globalResponse s)) =
              js_or v (JNum 50))
       \<and> (cryptoId = ''ethereum'' \<and> globalResponse = Response True st txt (Some g)
            \<and> read_path g [''data'', ''market_cap_percentage'', ''eth''] = Inr v \<longrightarrow>
            dominance (snd (fetchCryptoData rt cryptoId now response globalResponse s)) =
              js_or v (JNum 20))
       \<and> (globalResponse = Response False st txt body \<longrightarrow>
            dominance (snd (fetchCryptoData rt cryptoId now response globalResponse s)) = JNum 0)
       \<and> ((\<exists>st' txt' body'. globalResponse = Response False st' txt' body')
            \<or> (\<exists>st' txt' g'. globalResponse = Response True st' txt' (Some g')
                  \<and> (cryptoId = ''bitcoin'' \<longrightarrow>
                        (\<exists>v'. read_path g' [''data'', ''market_cap_percentage'', ''btc''] = Inr v'))
                  \<and> (cryptoId = ''ethereum'' \<longrightarrow>
                        (\<exists>v'. read_path g' [''data'', ''market_cap_percentage'', ''eth''] = Inr v'))))"
proof -
  from dominance_of_success [OF assms] obtain dm where
    d: "fetch_dominance cryptoId globalResponse = Inr dm" and
    r: "dominance (snd (fetchCryptoData rt cryptoId now response globalResponse s)) = dm"
    by blast
  have other: "cryptoId \<noteq> ''bitcoin'' \<and> cryptoId \<noteq> ''ethereum'' \<longrightarrow> dm = JNum 0"
    using d by (blast dest: fetch_dominance_other)
  have btc: "cryptoId = ''bitcoin'' \<and> globalResponse = Response True st txt (Some g)
            \<and> read_path g [''data'', ''market_cap_percentage'', ''btc''] = Inr v \<longrightarrow>
            dm = js_or v (JNum 50)"
    using d by (blast dest: fetch_dominance_bitcoin)
  have eth: "cryptoId = ''ethereum'' \<and> globalResponse = Response True st txt (Some g)
            \<and> read_path g [''data'', ''market_cap_percentage'', ''eth''] = Inr v \<longrightarrow>
            dm = js_or v (JNum 20)"
    using d by (blast dest: fetch_dominance_ethereum)
  have status: "globalResponse = Response False st txt body \<longrightarrow> dm = JNum 0"
    using d by (auto simp add: fetch_dominance_status)
  have kinds: "(\<exists>st' txt' body'. globalResponse = Response False st' txt' body')
            \<or> (\<exists>st' txt' g'. globalResponse = Response True st' txt' (Some g')
                  \<and> (cryptoId = ''bitcoin'' \<longrightarrow>
                        (\<exists>v'. read_path g' [''data'', ''market_cap_percentage'', ''btc''] = Inr v'))
                  \<and> (cryptoId = ''ethereum'' \<longrightarrow>
                        (\<exists>v'. read_path g' [''data'', ''market_cap_percentage'', ''eth''] = Inr v')))"
    using d by (rule fetch_dominance_kinds)
  show ?thesis unfolding r using other btc eth status kinds by blast
qed

theorem C5_witness_solana_gets_zero:
  "fresh_entry empty_store ''solana'' 1000 = None
   \<and> live_fetch example_runtime ''solana'' (Response True 200 ''OK'' (Some solana_snapshot))
        (Response True 200 ''OK'' (Some totals_without_btc)) = Inr solana_quote
   \<and> dominance (snd (fetchCryptoData example_runtime ''solana'' 1000
        (Response True 200 ''OK'' (Some solana_snapshot))
        (Response True 200 ''OK'' (Some totals_without_btc)) empty_store)) = JNum 0"
proof -
  have a: "fresh_entry empty_store ''solana'' 1000 = None"
    by (simp add: fresh_entry_def empty_store_def)
  have b: "live_fetch example_runtime ''solana'' (Response True 200 ''OK'' (Some solana_snapshot))
        (Response True 200 ''OK'' (Some totals_without_btc)) = Inr solana_quote"
    by (simp add: live_fetch_def fetch_snapshot_def fetch_dominance_def newData_def and_then_def
      solana_snapshot_def solana_quote_def member_def object_prototype_def upper_sol)
  show ?thesis using a b C5_dominance_by_asset_key [OF a b] by simp
qed

text \<open>
  Claim C5 as stated fails: with a global payload whose mapping has no \<open>btc\<close> entry, a
  successful fetch for \<open>bitcoin\<close> sets dominance to 50, not 0.
\<close>

theorem C5_counterexample_bitcoin_without_btc_entry:
  "read_path totals_without_btc [''data'', ''market_cap_percentage''] = Inr (JObj [(''eth'', JNum 12)])
   \<and> map_of [(''eth'', JNum 12)] ''btc'' = None
   \<and> error (snd (fetchCryptoData example_runtime ''bitcoin'' 1000
        (Response True 200 ''OK'' (Some bitcoin_snapshot))
        (Response True 200 ''OK'' (Some totals_without_btc)) empty_store)) = None
   \<and> dominance (snd (fetchCryptoData example_runtime ''bitcoin'' 1000
        (Response True 200 ''OK'' (Some bitcoin_snapshot))
        (Response True 200 ''OK'' (Some totals_without_btc)) empty_store)) = JNum 50
   \<and> JNum 50 \<noteq> JNum 0"
proof -
  have mapping: "read_path totals_without_btc [''data'', ''market_cap_percentage''] =
      Inr (JObj [(''eth'', JNum 12)])"
    by (simp add: totals_without_btc_def member_def)
  have run: "snd (fetchCryptoData example_runtime ''bitcoin'' 1000
        (Response True 200 ''OK'' (Some bitcoin_snapshot))
        (Response True 200 ''OK'' (Some totals_without_btc)) empty_store) =
      spread_data (JObj [(''price'', JNum 100000), (''priceChange24h'', JNum 500),
          (''priceChangePercent24h'', JNum 0.5), (''marketCap'', JNum 2000000000000),
          (''volume24h'', JNum 30000000000), (''dominance'', JNum 50),
          (''circulatingSupply'', JNum 19800000), (''name'', JStr ''Bitcoin''),
          (''symbol'', JStr ''BTC'')]) False None"
    by (simp add: fetchCryptoData_def fresh_entry_def empty_store_def bitcoin_live_without_btc)
  show ?thesis unfolding run mapping by (simp add: spread_data_def)
qed

text \<open>
  Claim C6, as amended. When the market-snapshot request succeeds (the response is ok,
  its body parses and has the fields \<open>newData\<close> reads) and the global-totals request
  answers with a non-success status, the quote fetch is successful: dominance is 0, the
  merged quote is written to both maps, and it is returned with \<open>error = null\<close>, each
  field of the state being the value the merged quote has under that name.
\<close>

theorem C6_global_status_failure_is_not_fatal:
  assumes "fresh_entry s cryptoId now = None"
      and "fetch_snapshot response = Inr cryptoData"
      and "newData rt cryptoData (JNum 0) = Inr nd"
      and "globalResponse = Response False st txt body"
  shows "fetchCryptoData rt cryptoId now response globalResponse s =
           (s\<lparr>cache := (cache s)(''crypto-'' @ cryptoId \<mapsto> \<lparr>data = nd, timestamp = now\<rparr>),
              lastSuccessfulPrices := (lastSuccessfulPrices s)(cryptoId \<mapsto> nd)\<rparr>,
            spread_data nd False None)
       \<and> dominance (snd (fetchCryptoData rt cryptoId now response globalResponse s)) = JNum 0
       \<and> error (snd (fetchCryptoData rt cryptoId now response globalResponse s)) = None
       \<and> (\<exists>v1 v2 v3 v4 v5 v6 v7 v8.
             nd = JObj [(''price'', v1), (''priceChange24h'', v2), (''priceChangePercent24h'', v3),
                      (''marketCap'', v4), (''volume24h'', v5), (''dominance'', JNum 0),
                      (''circulatingSupply'', v6), (''name'', v7), (''symbol'', v8)]
           \<and> snd (fetchCryptoData rt cryptoId now response globalResponse s) =
               \<lparr>price = v1, priceChange24h = v2, priceChangePercent24h = v3,
                  marketCap = v4, volume24h = v5, dominance = JNum 0,
                  circulatingSupply = v6, loading = False, error = None,
                  name = v7, symbol = v8\<rparr>)"
proof -
  have live: "live_fetch rt cryptoId response globalResponse = Inr nd"
    unfolding live_fetch_Inr using assms(2,3,4) fetch_dominance_status by blast
  have run: "fetchCryptoData rt cryptoId now response globalResponse s =
           (s\<lparr>cache := (cache s)(''crypto-'' @ cryptoId \<mapsto> \<lparr>data = nd, timestamp = now\<rparr>),
              lastSuccessfulPrices := (lastSuccessfulPrices s)(cryptoId \<mapsto> nd)\<rparr>,
            spread_data nd False None)"
    using assms(1) live by (simp add: fetchCryptoData_def)
  have d: "own_prop nd ''dominance'' = JNum 0"
    using assms(3) by (rule newData_dominance)
  have old: "dominance (snd (fetchCryptoData rt cryptoId now response globalResponse s)) = JNum 0
       \<and> error (snd (fetchCryptoData rt cryptoId now response globalResponse s)) = None"
    unfolding run using d by (simp add: spread_data_def)
  have state: "snd (fetchCryptoData rt cryptoId now response globalResponse s) =
      spread_data nd False None"
    unfolding run by simp
  from spread_of_newData [OF assms(3), of False None]
  have fields: "\<exists>v1 v2 v3 v4 v5 v6 v7 v8.
             nd = JObj [(''price'', v1), (''priceChange24h'', v2), (''priceChangePercent24h'', v3),
                      (''marketCap'', v4), (''volume24h'', v5), (''dominance'', JNum 0),
                      (''circulatingSupply'', v6), (''name'', v7), (''symbol'', v8)]
           \<and> snd (fetchCryptoData rt cryptoId now response globalResponse s) =
               \<lparr>price = v1, priceChange24h = v2, priceChangePercent24h = v3,
                  marketCap = v4, volume24h = v5, dominance = JNum 0,
                  circulatingSupply = v6, loading = False, error = None,
                  name = v7, symbol = v8\<rparr>"
    unfolding state by blast
  from run old fields show ?thesis by (intro conjI) blast+
qed

theorem C6_witness_solana_global_500:
  "fresh_entry empty_store ''solana'' 1000 = None
   \<and> fetch_snapshot (Response True 200 ''OK'' (Some solana_snapshot)) = Inr solana_snapshot
   \<and> newData example_runtime solana_snapshot (JNum 0) = Inr solana_quote
   \<and> fetchCryptoData example_runtime ''solana'' 1000
        (Response True 200 ''OK'' (Some solana_snapshot))
        (Response False 500 ''Internal Server Error'' None) empty_store =
       (solana_store,
        \<lparr>price = JNum 150, priceChange24h = JNum 3,
         priceChangePercent24h = JNum 2, marketCap = JNum 70000000000,
         volume24h = JNum 3000000000, dominance = JNum 0,
         circulatingSupply = JNum 460000000, loading = False,
         error = None,
         name = JStr ''Solana'', symbol = JStr ''SOL''\<rparr>)"
proof -
  have a: "fresh_entry empty_store ''solana'' 1000 = None"
    by (simp add: fresh_entry_def empty_store_def)
  have b: "fetch_snapshot (Response True 200 ''OK'' (Some solana_snapshot)) = Inr solana_snapshot"
    by (simp add: fetch_snapshot_def)
  have s: "empty_store\<lparr>cache := (cache empty_store)(''crypto-'' @ ''solana'' \<mapsto>
                 \<lparr>data = solana_quote, timestamp = 1000\<rparr>),
              lastSuccessfulPrices := (lastSuccessfulPrices empty_store)(''solana'' \<mapsto> solana_quote)\<rparr>
           = solana_store"
    by (simp add: empty_store_def solana_store_def)
  have r: "fetchCryptoData example_runtime ''solana'' 1000
        (Response True 200 ''OK'' (Some solana_snapshot))
        (Response False 500 ''Internal Server Error'' None) empty_store =
       (solana_store, spread_data solana_quote False None)"
    using C6_global_status_failure_is_not_fatal [OF a b solana_newData refl] unfolding s by blast
  have d: "spread_data solana_quote False None =
        \<lparr>price = JNum 150, priceChange24h = JNum 3,
         priceChangePercent24h = JNum 2, marketCap = JNum 70000000000,
         volume24h = JNum 3000000000, dominance = JNum 0,
         circulatingSupply = JNum 460000000, loading = False,
         error = None,
         name = JStr ''Solana'', symbol = JStr ''SOL''\<rparr>"
    by (simp add: spread_data_def solana_quote_def)
  show ?thesis using a b solana_newData unfolding r d by simp
qed

text \<open>
  Claim C6 as stated fails for a network error: when the global-totals \<open>fetch\<close> is
  rejected after a good snapshot, the \<open>catch\<close> block runs, nothing is written and the
  demo default is returned with its notice.
\<close>

theorem C6_counterexample_global_request_rejected:
  "fetch_snapshot (Response True 200 ''OK'' (Some solana_snapshot)) = Inr solana_snapshot
   \<and> newData example_runtime solana_snapshot (JNum 0) = Inr solana_quote
   \<and> fetchCryptoData example_runtime ''solana'' 1000
        (Response True 200 ''OK'' (Some solana_snapshot)) Rejected empty_store =
       (empty_store,
        \<lparr>price = JNum 280, priceChange24h = JNum 8.5,
         priceChangePercent24h = JNum 3.13, marketCap = JNum 135000000000,
         volume24h = JNum 4500000000, dominance = JNum 0,
         circulatingSupply = JNum 482.5, loading = False,
         error = Some ''Using demo data - API unavailable and no cached data'',
         name = JStr ''Solana'', symbol = JStr ''SOL''\<rparr>)"
proof -
  have b: "fetch_snapshot (Response True 200 ''OK'' (Some solana_snapshot)) = Inr solana_snapshot"
    by (simp add: fetch_snapshot_def)
  have live: "live_fetch example_runtime ''solana''
        (Response True 200 ''OK'' (Some solana_snapshot)) Rejected = Inl TypeError"
    by (simp add: live_fetch_def b and_then_def fetch_dominance_def)
  have r: "fetchCryptoData example_runtime ''solana'' 1000
        (Response True 200 ''OK'' (Some solana_snapshot)) Rejected empty_store =
        (empty_store, on_failure ''solana'' empty_store)"
    by (simp add: fetchCryptoData_def fresh_entry_def empty_store_def live)
  have f: "on_failure ''solana'' empty_store = \<lparr>price = JNum 280, priceChange24h = JNum 8.5,
         priceChangePercent24h = JNum 3.13, marketCap = JNum 135000000000,
         volume24h = JNum 4500000000, dominance = JNum 0,
         circulatingSupply = JNum 482.5, loading = False,
         error = Some ''Using demo data - API unavailable and no cached data'',
         name = JStr ''Solana'', symbol = JStr ''SOL''\<rparr>"
    by (simp add: on_failure_def empty_store_def fallbackData_def basicFallback_def member_def
        js_or_def spread_data_def)
  show ?thesis unfolding r f using b solana_newData by simp
qed

text \<open>A key that is neither in \<open>basicFallback\<close> nor inherited from
  \<open>Object.prototype\<close> falls back to the \<open>bitcoin\<close> entry.\<close>

lemma fallbackData_unknown_key:
  assumes "map_of basicFallback cryptoId = None" and "map_of object_prototype cryptoId = None"
  shows "fallbackData cryptoId = member basicFallback ''bitcoin''"
  using assms by (simp add: fallbackData_def member_def js_or_def)

text \<open>
  Claim C10: every asset key outside \<open>bitcoin\<close>, \<open>ethereum\<close>, \<open>solana\<close> gets
  Bitcoin's demo default when the live fetch fails and there is no fallback entry. The
  code misses this for the keys an object literal inherits: for \<open>constructor\<close> the
  read \<open>basicFallback[cryptoId]\<close> is the built-in \<open>Object\<close>, which is truthy, so
  the \<open>||\<close> does not reach \<open>basicFallback.bitcoin\<close> and the state has no price and
  no symbol.
\<close>

theorem C10_constructor_key_misses_bitcoin_default:
  "''constructor'' \<notin> {''bitcoin'', ''ethereum'', ''solana''}
   \<and> live_fetch example_runtime ''constructor'' (Response False 404 ''Not Found'' None) Rejected
        = Inl (Error ''HTTP 404: Not Found'')
   \<and> lastSuccessfulPrices empty_store ''constructor'' = None
   \<and> fetchCryptoData example_runtime ''constructor'' 1000
        (Response False 404 ''Not Found'' None) Rejected empty_store =
       (empty_store,
        \<lparr>price = JUndefined, priceChange24h = JUndefined,
         priceChangePercent24h = JUndefined, marketCap = JUndefined,
         volume24h = JUndefined, dominance = JUndefined,
         circulatingSupply = JUndefined, loading = False,
         error = Some ''Using demo data - API unavailable and no cached data'',
         name = JUndefined, symbol = JUndefined\<rparr>)"
proof -
  have n: "show_nat 404 = ''404''"
    by (simp add: show_nat.simps digit_char_def)
  have live: "live_fetch example_runtime ''constructor'' (Response False 404 ''Not Found'' None)
      Rejected = Inl (Error ''HTTP 404: Not Found'')"
    by (simp add: live_fetch_def fetch_snapshot_def and_then_def n)
  have fb: "fallbackData ''constructor'' = JBuiltin ''Object''"
    by (simp add: fallbackData_def basicFallback_def member_def object_prototype_def js_or_def)
  have r: "fetchCryptoData example_runtime ''constructor'' 1000
        (Response False 404 ''Not Found'' None) Rejected empty_store =
        (empty_store, on_failure ''constructor'' empty_store)"
    by (simp add: fetchCryptoData_def fresh_entry_def empty_store_def live)
  have f: "on_failure ''constructor'' empty_store =
        \<lparr>price = JUndefined, priceChange24h = JUndefined,
         priceChangePercent24h = JUndefined, marketCap = JUndefined,
         volume24h = JUndefined, dominance = JUndefined,
         circulatingSupply = JUndefined, loading = False,
         error = Some ''Using demo data - API unavailable and no cached data'',
         name = JUndefined, symbol = JUndefined\<rparr>"
    by (simp add: on_failure_def empty_store_def fb spread_data_def)
  show ?thesis unfolding r f using live by (simp add: empty_store_def)
qed

section \<open>Properties of the narrative fetcher\<close>

text \<open>Printing a natural number is injective and yields digits only, so the time
  bucket can be read off the end of a cache key.\<close>

lemma of_char_digit: "d < 10 \<Longrightarrow> (of_char (digit_char d) :: nat) = 48 + d"
  by (auto simp add: digit_char_def)

lemma read_show_nat: "read_nat (show_nat n) = n"
proof (induction n rule: show_nat.induct)
  case (1 n)
  show ?case
  proof (cases "n < 10")
    case True
    then show ?thesis
      by (simp add: show_nat.simps [of n] read_nat_def of_char_digit)
  next
    case False
    then have "read_nat (show_nat (n div 10)) = n div 10" using 1 by simp
    moreover have "(of_char (digit_char (n mod 10)) :: nat) = 48 + n mod 10"
      by (simp add: of_char_digit)
    ultimately show ?thesis using False
      by (simp add: show_nat.simps [of n] read_nat_def)
  qed
qed

lemma show_nat_inj: "show_nat a = show_nat b \<Longrightarrow> a = b"
  by (metis read_show_nat)

lemma show_nat_no_dash: "CHR ''-'' \<notin> set (show_nat n)"
proof (induction n rule: show_nat.induct)
  case (1 n)
  have d: "\<And>k. k < 10 \<Longrightarrow> digit_char k \<noteq> CHR ''-''"
  proof
    fix k :: nat assume k: "k < 10" and e: "digit_char k = CHR ''-''"
    from k have "(of_char (digit_char k) :: nat) = 48 + k" by (rule of_char_digit)
    then have "(of_char (CHR ''-'') :: nat) = 48 + k" by (simp only: e)
    then show False by simp
  qed
  show ?case
  proof (cases "n < 10")
    case True
    then show ?thesis using d [of n] by (simp add: show_nat.simps [of n])
  next
    case False
    then show ?thesis using 1 d [of "n mod 10"] by (simp add: show_nat.simps [of n])
  qed
qed

lemma suffix_after_last_dash:
  assumes "p @ ''-'' @ d = p' @ ''-'' @ d'"
      and "CHR ''-'' \<notin> set d" and "CHR ''-'' \<notin> set d'"
  shows "d = d'"
proof -
  have a: "takeWhile (\<lambda>c. c \<noteq> CHR ''-'') (rev (p @ ''-'' @ d)) = rev d"
    using assms(2) by (auto simp add: takeWhile_tail)
  have b: "takeWhile (\<lambda>c. c \<noteq> CHR ''-'') (rev (p' @ ''-'' @ d')) = rev d'"
    using assms(3) by (auto simp add: takeWhile_tail)
  have "takeWhile (\<lambda>c. c \<noteq> CHR ''-'') (rev (p @ ''-'' @ d)) =
        takeWhile (\<lambda>c. c \<noteq> CHR ''-'') (rev (p' @ ''-'' @ d'))"
    by (simp only: assms(1))
  then have "rev d = rev d'" by (simp only: a b)
  then show ?thesis by simp
qed

lemma key_bucket_unique:
  "p @ ''-'' @ show_nat b = p' @ ''-'' @ show_nat b' \<Longrightarrow> b = b'"
  by (blast dest: suffix_after_last_dash [OF _ show_nat_no_dash show_nat_no_dash] show_nat_inj)

text \<open>Reading the response.\<close>

lemma get_prop_throws_TypeError: "get_prop v k = Inl e \<Longrightarrow> e = TypeError"
  by (cases v) simp_all

lemma find_message_none:
  assumes "\<forall>item \<in> set items. get_prop item ''type'' \<noteq> Inr (JStr ''message'')"
  shows "find_message items = Inr JUndefined \<or> find_message items = Inl TypeError"
  using assms
proof (induction items)
  case Nil
  then show ?case by simp
next
  case (Cons item items)
  show ?case
  proof (cases "get_prop item ''type''")
    case (Inl e)
    then show ?thesis by (simp add: get_prop_throws_TypeError)
  next
    case (Inr t)
    with Cons.prems have "t \<noteq> JStr ''message''" by auto
    with Inr Cons show ?thesis by simp
  qed
qed

lemma find_message_none_total:
  assumes "\<forall>item \<in> set items. get_prop item ''type'' \<noteq> Inr (JStr ''message'')"
      and "\<forall>item \<in> set items. get_prop item ''type'' \<noteq> Inl TypeError"
  shows "find_message items = Inr JUndefined"
  using assms
proof (induction items)
  case Nil
  then show ?case by simp
next
  case (Cons item items)
  show ?case
  proof (cases "get_prop item ''type''")
    case (Inl e)
    with Cons.prems(2) show ?thesis by (auto dest: get_prop_throws_TypeError)
  next
    case (Inr t)
    with Cons.prems have "t \<noteq> JStr ''message''" by auto
    with Inr Cons show ?thesis by simp
  qed
qed

lemma parse_analysis_no_message:
  assumes "get_prop dat ''output'' = Inr (JArr items)"
      and "\<forall>item \<in> set items. get_prop item ''type'' \<noteq> Inr (JStr ''message'')"
  shows "parse_analysis rt dat = Inl (Error ''Invalid response from OpenAI Web Search API'')
       \<or> parse_analysis rt dat = Inl TypeError"
proof -
  have "messageOutput dat = find_message items"
    using assms(1) by (simp add: messageOutput_def and_then_def)
  with find_message_none [OF assms(2)] show ?thesis
    by (auto simp add: parse_analysis_def and_then_def)
qed

lemma parse_analysis_no_message_total:
  assumes "get_prop dat ''output'' = Inr (JArr items)"
      and "\<forall>item \<in> set items. get_prop item ''type'' \<noteq> Inr (JStr ''message'')"
      and "\<forall>item \<in> set items. get_prop item ''type'' \<noteq> Inl TypeError"
  shows "parse_analysis rt dat = Inl (Error ''Invalid response from OpenAI Web Search API'')"
proof -
  have "messageOutput dat = find_message items"
    using assms(1) by (simp add: messageOutput_def and_then_def)
  with find_message_none_total [OF assms(2,3)] show ?thesis
    by (simp add: parse_analysis_def and_then_def)
qed

lemma getAIAnalysis_failure:
  assumes "fresh_analysis s (cacheKey rt request t0) now = None"
      and "tryOpenAIWebSearchAPI rt apiKey response = (Inl e, sent)"
  shows "getAIAnalysis rt apiKey response request t0 now s = (Inl unavailable, sent, s)"
  using assms by (simp add: getAIAnalysis_def)

lemma search_only_try:
  "tryOpenAIWebSearchAPI example_runtime (Some ''sk-test'')
     (Response True 200 ''OK'' (Some search_only_body)) =
   (Inl (Error ''Invalid response from OpenAI Web Search API''), 1)"
  by (simp add: tryOpenAIWebSearchAPI_def parse_analysis_def messageOutput_def and_then_def
      search_only_body_def member_def)

text \<open>
  Claim C7. With a credential configured and no fresh cache entry for the request, a
  response of the narrative endpoint (status ok, body parsed) whose \<open>output\<close> array
  holds no element of type "message" makes \<open>tryOpenAIWebSearchAPI\<close> throw: the error
  "Invalid response from OpenAI Web Search API", or, when an element of the array is
  \<open>null\<close>, the \<open>TypeError\<close> of reading its \<open>type\<close>. \<open>getAIAnalysis\<close> then
  rejects and leaves the analysis cache (and the other map) as it was.
\<close>

theorem C7_no_message_output_fails_without_cache_write:
  assumes "apiKey \<noteq> None" and "apiKey \<noteq> Some []"
      and "fresh_analysis s (cacheKey rt request t0) now = None"
      and "response = Response True st txt (Some dat)"
      and "get_prop dat ''output'' = Inr (JArr items)"
      and "\<forall>item \<in> set items. get_prop item ''type'' \<noteq> Inr (JStr ''message'')"
  shows "(tryOpenAIWebSearchAPI rt apiKey response =
            (Inl (Error ''Invalid response from OpenAI Web Search API''), 1)
          \<or> tryOpenAIWebSearchAPI rt apiKey response = (Inl TypeError, 1))
       \<and> ((\<forall>item \<in> set items. get_prop item ''type'' \<noteq> Inl TypeError) \<longrightarrow>
            tryOpenAIWebSearchAPI rt apiKey response =
              (Inl (Error ''Invalid response from OpenAI Web Search API''), 1))
       \<and> getAIAnalysis rt apiKey response request t0 now s = (Inl unavailable, 1, s)"
proof -
  have t: "tryOpenAIWebSearchAPI rt apiKey response = (parse_analysis rt dat, 1)"
    using assms(1,2,4) by (simp add: tryOpenAIWebSearchAPI_def)
  have a: "tryOpenAIWebSearchAPI rt apiKey response =
            (Inl (Error ''Invalid response from OpenAI Web Search API''), 1)
          \<or> tryOpenAIWebSearchAPI rt apiKey response = (Inl TypeError, 1)"
    unfolding t using parse_analysis_no_message [OF assms(5,6), of rt] by auto
  have b: "(\<forall>item \<in> set items. get_prop item ''type'' \<noteq> Inl TypeError) \<longrightarrow>
            tryOpenAIWebSearchAPI rt apiKey response =
              (Inl (Error ''Invalid response from OpenAI Web Search API''), 1)"
    unfolding t using parse_analysis_no_message_total [OF assms(5,6), of rt] by auto
  have c: "getAIAnalysis rt apiKey response request t0 now s = (Inl unavailable, 1, s)"
    using a getAIAnalysis_failure [OF assms(3)] by blast
  from a b c show ?thesis by (intro conjI)
qed

theorem C7_witness_search_call_only:
  "fresh_analysis empty_narratives (cacheKey example_runtime btc_request 1000) 1000 = None
   \<and> get_prop search_only_body ''output'' = Inr (JArr [JObj [(''type'', JStr ''web_search_call'')]])
   \<and> get_prop (JObj [(''type'', JStr ''web_search_call'')]) ''type'' = Inr (JStr ''web_search_call'')
   \<and> tryOpenAIWebSearchAPI example_runtime (Some ''sk-test'')
        (Response True 200 ''OK'' (Some search_only_body)) =
        (Inl (Error ''Invalid response from OpenAI Web Search API''), 1)
   \<and> getAIAnalysis example_runtime (Some ''sk-test'')
        (Response True 200 ''OK'' (Some search_only_body)) btc_request 1000 1000 empty_narratives =
        (Inl unavailable, 1, empty_narratives)"
proof -
  have a: "Some ''sk-test'' \<noteq> None" and b: "Some ''sk-test'' \<noteq> Some []" by simp_all
  have c: "fresh_analysis empty_narratives (cacheKey example_runtime btc_request 1000) 1000 = None"
    by (simp add: fresh_analysis_def empty_narratives_def)
  have d: "get_prop search_only_body ''output'' =
      Inr (JArr [JObj [(''type'', JStr ''web_search_call'')]])"
    by (simp add: search_only_body_def member_def)
  have e: "get_prop (JObj [(''type'', JStr ''web_search_call'')]) ''type'' =
      Inr (JStr ''web_search_call'')"
    by (simp add: member_def)
  have f: "\<forall>item \<in> set [JObj [(''type'', JStr ''web_search_call'')]].
      get_prop item ''type'' \<noteq> Inr (JStr ''message'')"
    by (simp add: member_def)
  have g: "getAIAnalysis example_runtime (Some ''sk-test'')
        (Response True 200 ''OK'' (Some search_only_body)) btc_request 1000 1000 empty_narratives =
        (Inl unavailable, 1, empty_narratives)"
    using C7_no_message_output_fails_without_cache_write [OF a b c refl d f] by blast
  show ?thesis using c d e search_only_try g by (intro conjI)
qed

text \<open>The ways \<open>tryOpenAIWebSearchAPI\<close> fails: no credential, a rejected request, a
  non-success status, a response without a message (above), and an empty text.\<close>

lemma try_missing_credential:
  "apiKey = None \<or> apiKey = Some [] \<Longrightarrow>
   tryOpenAIWebSearchAPI rt apiKey response = (Inl (Error ''OpenAI API key not configured''), 0)"
  by (auto simp add: tryOpenAIWebSearchAPI_def)

lemma try_non_success_status:
  "apiKey \<noteq> None \<Longrightarrow> apiKey \<noteq> Some [] \<Longrightarrow>
   tryOpenAIWebSearchAPI rt apiKey (Response False st txt body) = (Inl (api_error rt st body), 1)"
  by (simp add: tryOpenAIWebSearchAPI_def)

lemma try_rejected:
  "apiKey \<noteq> None \<Longrightarrow> apiKey \<noteq> Some [] \<Longrightarrow>
   tryOpenAIWebSearchAPI rt apiKey Rejected = (Inl TypeError, 1)"
  by (simp add: tryOpenAIWebSearchAPI_def)

lemma parse_analysis_empty_text:
  assumes "messageOutput dat = Inr msg" and "truthy msg"
      and "get_prop msg ''content'' = Inr (JArr content)"
      and "extract_text rt content [] [] = Inr (analysisText, annotations)"
      and "trim rt analysisText = []"
  shows "parse_analysis rt dat = Inl (Error ''No analysis text found in OpenAI response'')"
  using assms by (simp add: parse_analysis_def and_then_def)

text \<open>
  Claim C8, as amended. Whenever \<open>tryOpenAIWebSearchAPI\<close> throws (missing credential,
  non-success status, malformed response shape, empty text, or anything else) and no
  fresh cache entry answers the call, \<open>getAIAnalysis\<close> rejects with the fixed message
  "AI analysis service is currently unavailable. Please check your OpenAI API
  configuration and try again." - the underlying error is only logged - and writes to
  neither map; the component shows that fixed message as its error and keeps its
  narrative text and sources as they were: no narrative content is made up.
\<close>

theorem C8_failure_gives_fixed_message_and_no_content:
  assumes "fresh_analysis s (cacheKey rt request t0) now = None"
      and "tryOpenAIWebSearchAPI rt apiKey response = (Inl e, sent)"
      and "currentPrice request \<noteq> 0" and "cryptoName request \<noteq> []"
  shows "getAIAnalysis rt apiKey response request t0 now s = (Inl unavailable, sent, s)
       \<and> fetchAnalysis rt apiKey response request t0 now (v, s) =
           (v\<lparr>ui_loading := False, ui_error := Some unavailable\<rparr>, s)
       \<and> ui_analysis (fst (fetchAnalysis rt apiKey response request t0 now (v, s))) = ui_analysis v
       \<and> ui_sources (fst (fetchAnalysis rt apiKey response request t0 now (v, s))) = ui_sources v"
proof -
  have g: "getAIAnalysis rt apiKey response request t0 now s = (Inl unavailable, sent, s)"
    using assms(1,2) by (simp add: getAIAnalysis_def)
  have f: "fetchAnalysis rt apiKey response request t0 now (v, s) =
           (v\<lparr>ui_loading := False, ui_error := Some unavailable\<rparr>, s)"
    using assms(3,4) by (simp add: fetchAnalysis_def g)
  show ?thesis unfolding f using g by simp
qed

theorem C8_witness_missing_credential:
  "fresh_analysis empty_narratives (cacheKey example_runtime btc_request 1000) 1000 = None
   \<and> tryOpenAIWebSearchAPI example_runtime None (Response True 200 ''OK'' (Some narrative_body)) =
       (Inl (Error ''OpenAI API key not configured''), 0)
   \<and> currentPrice btc_request \<noteq> 0 \<and> cryptoName btc_request \<noteq> []
   \<and> fetchAnalysis example_runtime None (Response True 200 ''OK'' (Some narrative_body))
        btc_request 1000 1000 (idle_view, empty_narratives) =
       (\<lparr>ui_analysis = [], ui_sources = [], ui_loading = False, ui_error = Some unavailable\<rparr>,
        empty_narratives)"
proof -
  have a: "fresh_analysis empty_narratives (cacheKey example_runtime btc_request 1000) 1000 = None"
    by (simp add: fresh_analysis_def empty_narratives_def)
  have b: "tryOpenAIWebSearchAPI example_runtime None
       (Response True 200 ''OK'' (Some narrative_body)) =
       (Inl (Error ''OpenAI API key not configured''), 0)"
    by (simp add: tryOpenAIWebSearchAPI_def)
  have c: "currentPrice btc_request \<noteq> 0" and d: "cryptoName btc_request \<noteq> []"
    by (simp_all add: btc_request_def)
  have r: "fetchAnalysis example_runtime None (Response True 200 ''OK'' (Some narrative_body))
        btc_request 1000 1000 (idle_view, empty_narratives) =
       (idle_view\<lparr>ui_loading := False, ui_error := Some unavailable\<rparr>, empty_narratives)"
    using C8_failure_gives_fixed_message_and_no_content [OF a b c d] by blast
  show ?thesis unfolding r using a b c d by (simp add: idle_view_def)
qed

text \<open>
  Claim C8 as stated fails: the error is not surfaced verbatim. Without a credential
  the underlying error is "OpenAI API key not configured", and the message the user
  sees is the fixed one.
\<close>

theorem C8_counterexample_missing_credential_not_verbatim:
  "tryOpenAIWebSearchAPI example_runtime None (Response True 200 ''OK'' (Some narrative_body)) =
       (Inl (Error ''OpenAI API key not configured''), 0)
   \<and> fst (getAIAnalysis example_runtime None (Response True 200 ''OK'' (Some narrative_body))
        btc_request 1000 1000 empty_narratives) =
       Inl (''AI analysis service is currently unavailable. '' @
            ''Please check your OpenAI API configuration and try again.'')
   \<and> ui_error (fst (fetchAnalysis example_runtime None
        (Response True 200 ''OK'' (Some narrative_body))
        btc_request 1000 1000 (idle_view, empty_narratives))) \<noteq>
       Some ''OpenAI API key not configured''"
proof -
  have a: "fresh_analysis empty_narratives (cacheKey example_runtime btc_request 1000) 1000 = None"
    by (simp add: fresh_analysis_def empty_narratives_def)
  have b: "tryOpenAIWebSearchAPI example_runtime None
       (Response True 200 ''OK'' (Some narrative_body)) =
       (Inl (Error ''OpenAI API key not configured''), 0)"
    by (simp add: tryOpenAIWebSearchAPI_def)
  have g: "getAIAnalysis example_runtime None (Response True 200 ''OK'' (Some narrative_body))
        btc_request 1000 1000 empty_narratives = (Inl unavailable, 0, empty_narratives)"
    using a b by (simp add: getAIAnalysis_def)
  have f: "fetchAnalysis example_runtime None (Response True 200 ''OK'' (Some narrative_body))
        btc_request 1000 1000 (idle_view, empty_narratives) =
       (idle_view\<lparr>ui_loading := False, ui_error := Some unavailable\<rparr>, empty_narratives)"
  proof -
    have "currentPrice btc_request \<noteq> 0" and "cryptoName btc_request \<noteq> []"
      by (simp_all add: btc_request_def)
    then show ?thesis by (simp add: fetchAnalysis_def g)
  qed
  show ?thesis unfolding f g using b by (simp add: unavailable_def)
qed

text \<open>Requests sent, cache hits, and the time bucket at the end of a cache key.\<close>

lemma try_sent_with_credential:
  "apiKey \<noteq> None \<Longrightarrow> apiKey \<noteq> Some [] \<Longrightarrow> snd (tryOpenAIWebSearchAPI rt apiKey response) = 1"
  by (simp add: tryOpenAIWebSearchAPI_def split: fetch_outcome.splits option.splits)

lemma try_sent_without_credential:
  "apiKey = None \<or> apiKey = Some [] \<Longrightarrow> snd (tryOpenAIWebSearchAPI rt apiKey response) = 0"
  by (auto simp add: tryOpenAIWebSearchAPI_def)

lemma getAIAnalysis_sent_on_miss:
  "fresh_analysis s (cacheKey rt request t0) now = None \<Longrightarrow>
   fst (snd (getAIAnalysis rt apiKey response request t0 now s)) =
     snd (tryOpenAIWebSearchAPI rt apiKey response)"
  by (simp add: getAIAnalysis_def split: prod.splits sum.splits)

lemma getAIAnalysis_sent_success:
  assumes "getAIAnalysis rt apiKey response request t0 now s = (Inr r, sent, s1)"
      and "0 < sent"
  shows "apiKey \<noteq> None \<and> apiKey \<noteq> Some []
       \<and> sent = 1
       \<and> analysisCache s1 =
           (analysisCache s)(cacheKey rt request t0 \<mapsto> \<lparr>data = r, timestamp = now\<rparr>)"
proof -
  have miss: "fresh_analysis s (cacheKey rt request t0) now = None"
    using assms by (cases "fresh_analysis s (cacheKey rt request t0) now")
      (simp_all add: getAIAnalysis_def)
  have sent: "snd (tryOpenAIWebSearchAPI rt apiKey response) = sent"
    using getAIAnalysis_sent_on_miss [OF miss, of apiKey response] assms(1) by simp
  have cred: "apiKey \<noteq> None \<and> apiKey \<noteq> Some []"
  proof (rule ccontr)
    assume "\<not> (apiKey \<noteq> None \<and> apiKey \<noteq> Some [])"
    then have "apiKey = None \<or> apiKey = Some []" by blast
    then have "snd (tryOpenAIWebSearchAPI rt apiKey response) = 0"
      by (rule try_sent_without_credential)
    with sent assms(2) show False by simp
  qed
  have "analysisCache s1 =
           (analysisCache s)(cacheKey rt request t0 \<mapsto> \<lparr>data = r, timestamp = now\<rparr>)"
    using assms(1) miss
    by (auto simp add: getAIAnalysis_def split: prod.splits sum.splits if_splits)
  moreover have "sent = 1"
    using sent cred try_sent_with_credential [of apiKey rt response] by simp
  ultimately show ?thesis using cred by simp
qed

lemma getAIAnalysis_hit:
  assumes "analysisCache s k = Some \<lparr>data = r, timestamp = ts\<rparr>"
      and "int now - int ts < 300000"
      and "cacheKey rt request t0 = k"
  shows "getAIAnalysis rt apiKey response request t0 now s = (Inr r, 0, s)"
  using assms by (simp add: getAIAnalysis_def fresh_analysis_def ANALYSIS_CACHE_DURATION_def)

lemma same_bucket_close:
  "(now' :: nat) div 300000 = now div 300000 \<Longrightarrow> int now' - int now < 300000"
  by arith

lemma cacheKey_same_inputs:
  assumes "req_symbol request2 = req_symbol request1"
      and "toFixed2 rt (currentPrice request2) = toFixed2 rt (currentPrice request1)"
      and "toFixed2 rt (req_priceChangePercent24h request2) =
           toFixed2 rt (req_priceChangePercent24h request1)"
      and "t0' div 300000 = t0 div 300000"
  shows "cacheKey rt request2 t0' = cacheKey rt request1 t0"
  using assms by (simp add: cacheKey_def)

lemma cacheKey_bucket:
  assumes "cacheKey rt request t0 = p @ ''-'' @ show_nat b"
  shows "b = t0 div 300000"
proof -
  have "cacheKey rt request t0 =
      (req_symbol request @ ''-'' @ toFixed2 rt (currentPrice request) @ ''-'' @
       toFixed2 rt (req_priceChangePercent24h request)) @ ''-'' @ show_nat (t0 div 300000)"
    by (simp add: cacheKey_def)
  with assms have "p @ ''-'' @ show_nat b =
      (req_symbol request @ ''-'' @ toFixed2 rt (currentPrice request) @ ''-'' @
       toFixed2 rt (req_priceChangePercent24h request)) @ ''-'' @ show_nat (t0 div 300000)"
    by simp
  then show ?thesis by (rule key_bucket_unique)
qed

lemma cacheKey_other_bucket:
  "t0' div 300000 \<noteq> t0 div 300000 \<Longrightarrow> cacheKey rt request2 t0' \<noteq> cacheKey rt request1 t0"
proof
  assume d: "t0' div 300000 \<noteq> t0 div 300000" and e: "cacheKey rt request2 t0' = cacheKey rt request1 t0"
  have "cacheKey rt request1 t0 =
      (req_symbol request1 @ ''-'' @ toFixed2 rt (currentPrice request1) @ ''-'' @
       toFixed2 rt (req_priceChangePercent24h request1)) @ ''-'' @ show_nat (t0 div 300000)"
    by (simp add: cacheKey_def)
  with e have "t0 div 300000 = t0' div 300000" by (metis cacheKey_bucket)
  with d show False by simp
qed

lemma no_key_of_later_bucket:
  assumes "keys_not_after s T" and "T div 300000 < t0' div 300000"
  shows "analysisCache s (cacheKey rt request t0') = None"
proof (cases "analysisCache s (cacheKey rt request t0')")
  case None
  then show ?thesis .
next
  case (Some e)
  with assms(1) obtain p b where k: "cacheKey rt request t0' = p @ ''-'' @ show_nat b"
    and le: "b * 300000 \<le> T"
    unfolding keys_not_after_def by blast
  from k have "b = t0' div 300000" by (rule cacheKey_bucket)
  with le have "t0' div 300000 \<le> T div 300000" by simp
  with assms(2) show ?thesis by simp
qed

lemma keys_not_after_empty: "keys_not_after empty_narratives T"
  by (simp add: keys_not_after_def empty_narratives_def)

lemma keys_not_after_later: "keys_not_after s T \<Longrightarrow> T \<le> T' \<Longrightarrow> keys_not_after s T'"
  unfolding keys_not_after_def by (meson le_trans)

lemma keys_not_after_getAIAnalysis:
  assumes "keys_not_after s T" and "T \<le> t0"
  shows "keys_not_after (snd (snd (getAIAnalysis rt apiKey response request t0 now s))) t0"
proof -
  have old: "keys_not_after s t0" using assms by (rule keys_not_after_later)
  have new: "\<exists>p b. cacheKey rt request t0 = p @ ''-'' @ show_nat b \<and> b * 300000 \<le> t0"
  proof (intro exI conjI)
    show "cacheKey rt request t0 =
      (req_symbol request @ ''-'' @ toFixed2 rt (currentPrice request) @ ''-'' @
       toFixed2 rt (req_priceChangePercent24h request)) @ ''-'' @ show_nat (t0 div 300000)"
      by (simp add: cacheKey_def)
    show "t0 div 300000 * 300000 \<le> t0" by simp
  qed
  show ?thesis
    using old new
    by (auto simp add: getAIAnalysis_def keys_not_after_def split: option.splits prod.splits sum.splits if_splits)
qed

text \<open>Evaluations used by the examples.\<close>

lemma narrative_try:
  "tryOpenAIWebSearchAPI example_runtime (Some ''sk-test'')
     (Response True 200 ''OK'' (Some narrative_body)) = (Inr narrative_result, 1)"
  by (simp add: tryOpenAIWebSearchAPI_def parse_analysis_def messageOutput_def and_then_def
      narrative_body_def narrative_result_def member_def object_prototype_def hostname_def
      example_runtime_def js_or_def ascii_space_def)

lemma first_call_from_empty:
  "getAIAnalysis example_runtime (Some ''sk-test'')
     (Response True 200 ''OK'' (Some narrative_body)) btc_request t t empty_narratives =
   (Inr narrative_result, 1, btc_cached t)"
  by (simp add: getAIAnalysis_def fresh_analysis_def empty_narratives_def narrative_try
      btc_cached_def narrative_result_def btc_request_def)



lemma moved_key:
  "req_symbol btc_request_moved = req_symbol btc_request"
  "toFixed2 example_runtime (currentPrice btc_request_moved) =
   toFixed2 example_runtime (currentPrice btc_request)"
  "toFixed2 example_runtime (req_priceChangePercent24h btc_request_moved) =
   toFixed2 example_runtime (req_priceChangePercent24h btc_request)"
  by (simp_all add: btc_request_moved_def btc_request_def toFixed2_def)

lemma second_call_next_bucket:
  "getAIAnalysis example_runtime (Some ''sk-test'')
     (Response True 200 ''OK'' (Some narrative_body)) btc_request 305000 305000
     (btc_cached 295000) =
   (Inr narrative_result, 1,
    (btc_cached 295000)
      \<lparr>latestSuccessfulAnalysis :=
         (latestSuccessfulAnalysis (btc_cached 295000))
           (''BTC'' \<mapsto> (''Bitcoin rose.'', 305000, btc_request)),
       analysisCache :=
         (analysisCache (btc_cached 295000))
           (cacheKey example_runtime btc_request 305000 \<mapsto>
              \<lparr>data = narrative_result, timestamp = 305000\<rparr>)\<rparr>)"
proof -
  have "(305000::nat) div 300000 \<noteq> 295000 div 300000" by simp
  then have "cacheKey example_runtime btc_request 305000 \<noteq>
      cacheKey example_runtime btc_request 295000"
    by (rule cacheKey_other_bucket)
  then have "fresh_analysis (btc_cached 295000) (cacheKey example_runtime btc_request 305000)
      305000 = None"
    by (simp add: fresh_analysis_def btc_cached_def)
  then show ?thesis
    by (simp add: getAIAnalysis_def narrative_try narrative_result_def btc_request_def)
qed

text \<open>
  Claim C4, as amended. Let a first request be answered by the narrative endpoint (a
  request was sent and \<open>getAIAnalysis\<close> returned a narrative), and let a second request
  have the same symbol, the same text \<open>toFixed(2)\<close> of the price and the same text
  \<open>toFixed(2)\<close> of the percent change (the texts "-0.00" and "0.00" differ). If the
  clock readings of the second call lie in the 5-minute buckets of the first call's, the
  second call returns the cached narrative, sends no request and changes nothing. If
  the second call falls into a later bucket (and the cache is one that calls up to the
  first request's time can have produced), it sends a request to the endpoint.
\<close>

theorem C4_same_bucket_hits_later_bucket_fetches:
  assumes "getAIAnalysis rt apiKey responseA requestA t0 now s0 = (Inr narrative, sentA, s1)"
      and "0 < sentA"
      and "req_symbol requestB = req_symbol requestA"
      and "toFixed2 rt (currentPrice requestB) = toFixed2 rt (currentPrice requestA)"
      and "toFixed2 rt (req_priceChangePercent24h requestB) =
           toFixed2 rt (req_priceChangePercent24h requestA)"
  shows "(t0' div 300000 = t0 div 300000 \<and> now' div 300000 = now div 300000 \<longrightarrow>
            getAIAnalysis rt apiKey responseB requestB t0' now' s1 = (Inr narrative, 0, s1))
       \<and> (keys_not_after s0 t0 \<and> t0 div 300000 < t0' div 300000 \<longrightarrow>
            fst (snd (getAIAnalysis rt apiKey responseB requestB t0' now' s1)) = 1)"
proof -
  from getAIAnalysis_sent_success [OF assms(1,2)]
  have cred: "apiKey \<noteq> None" "apiKey \<noteq> Some []"
    and s1: "analysisCache s1 =
      (analysisCache s0)(cacheKey rt requestA t0 \<mapsto> \<lparr>data = narrative, timestamp = now\<rparr>)"
    by simp_all
  have hit: "t0' div 300000 = t0 div 300000 \<and> now' div 300000 = now div 300000 \<longrightarrow>
            getAIAnalysis rt apiKey responseB requestB t0' now' s1 = (Inr narrative, 0, s1)"
  proof
    assume b: "t0' div 300000 = t0 div 300000 \<and> now' div 300000 = now div 300000"
    then have "t0' div 300000 = t0 div 300000" by simp
    with assms(3,4,5) have k: "cacheKey rt requestB t0' = cacheKey rt requestA t0"
      by (rule cacheKey_same_inputs)
    have e: "analysisCache s1 (cacheKey rt requestA t0) = Some \<lparr>data = narrative, timestamp = now\<rparr>"
      by (simp add: s1)
    from b have "now' div 300000 = now div 300000" by simp
    then have c: "int now' - int now < 300000" by (rule same_bucket_close)
    from e c k show "getAIAnalysis rt apiKey responseB requestB t0' now' s1 = (Inr narrative, 0, s1)"
      by (rule getAIAnalysis_hit)
  qed
  have miss: "keys_not_after s0 t0 \<and> t0 div 300000 < t0' div 300000 \<longrightarrow>
            fst (snd (getAIAnalysis rt apiKey responseB requestB t0' now' s1)) = 1"
  proof
    assume b: "keys_not_after s0 t0 \<and> t0 div 300000 < t0' div 300000"
    then have inv: "keys_not_after s0 t0" and later: "t0 div 300000 < t0' div 300000"
      by simp_all
    from inv later have old: "analysisCache s0 (cacheKey rt requestB t0') = None"
      by (rule no_key_of_later_bucket)
    from later have "t0' div 300000 \<noteq> t0 div 300000" by simp
    then have "cacheKey rt requestB t0' \<noteq> cacheKey rt requestA t0"
      by (rule cacheKey_other_bucket)
    with old have "analysisCache s1 (cacheKey rt requestB t0') = None"
      by (simp add: s1)
    then have "fresh_analysis s1 (cacheKey rt requestB t0') now' = None"
      by (simp add: fresh_analysis_def)
    then have "fst (snd (getAIAnalysis rt apiKey responseB requestB t0' now' s1)) =
        snd (tryOpenAIWebSearchAPI rt apiKey responseB)"
      by (rule getAIAnalysis_sent_on_miss)
    moreover have "snd (tryOpenAIWebSearchAPI rt apiKey responseB) = 1"
      using cred by (rule try_sent_with_credential)
    ultimately show "fst (snd (getAIAnalysis rt apiKey responseB requestB t0' now' s1)) = 1"
      by simp
  qed
  from hit miss show ?thesis by (intro conjI)
qed

theorem C4_witness_moved_request:
  "getAIAnalysis example_runtime (Some ''sk-test'')
     (Response True 200 ''OK'' (Some narrative_body)) btc_request 10000 10000 empty_narratives =
     (Inr narrative_result, 1, btc_cached 10000)
   \<and> toFixed2 example_runtime (currentPrice btc_request_moved) =
       toFixed2 example_runtime (currentPrice btc_request)
   \<and> getAIAnalysis example_runtime (Some ''sk-test'') Rejected btc_request_moved 20000 20000
       (btc_cached 10000) = (Inr narrative_result, 0, btc_cached 10000)
   \<and> keys_not_after empty_narratives 10000
   \<and> fst (snd (getAIAnalysis example_runtime (Some ''sk-test'') Rejected btc_request_moved
       310000 310000 (btc_cached 10000))) = 1"
proof -
  note first = first_call_from_empty [of 10000]
  have pos: "0 < (1::nat)" by simp
  have a: "(20000::nat) div 300000 = 10000 div 300000 \<and> (20000::nat) div 300000 = 10000 div 300000"
    by simp
  have b: "keys_not_after empty_narratives 10000 \<and> (10000::nat) div 300000 < 310000 div 300000"
    by (simp add: keys_not_after_empty)
  have h: "getAIAnalysis example_runtime (Some ''sk-test'') Rejected btc_request_moved 20000 20000
       (btc_cached 10000) = (Inr narrative_result, 0, btc_cached 10000)"
    using C4_same_bucket_hits_later_bucket_fetches [OF first pos moved_key,
        where t0' = 20000 and now' = 20000 and responseB = Rejected] a by blast
  have m: "fst (snd (getAIAnalysis example_runtime (Some ''sk-test'') Rejected btc_request_moved
       310000 310000 (btc_cached 10000))) = 1"
    using C4_same_bucket_hits_later_bucket_fetches [OF first pos moved_key,
        where t0' = 310000 and now' = 310000 and responseB = Rejected] b by blast
  from first moved_key(2) h b m show ?thesis by (intro conjI) simp_all
qed

text \<open>The first call from empty maps, for any request.\<close>

lemma first_call_writes:
  "getAIAnalysis example_runtime (Some ''sk-test'')
     (Response True 200 ''OK'' (Some narrative_body)) request t t empty_narratives =
   (Inr narrative_result, 1,
    \<lparr>analysisCache =
       [cacheKey example_runtime request t \<mapsto> \<lparr>data = narrative_result, timestamp = t\<rparr>],
     latestSuccessfulAnalysis = [req_symbol request \<mapsto> (''Bitcoin rose.'', t, request)]\<rparr>)"
  by (simp add: getAIAnalysis_def fresh_analysis_def empty_narratives_def narrative_try
      narrative_result_def)

lemma up_down_keys:
  "cacheKey example_runtime btc_request_up 10000 = ''BTC-120000.00-0.00-0''"
  "cacheKey example_runtime btc_request_down 20000 = ''BTC-120000.00--0.00-0''"
  by (simp_all add: cacheKey_def toFixed2_def btc_request_up_def btc_request_down_def
      btc_request_def show_nat.simps digit_char_def)

text \<open>
  Claim C4 as stated fails: percent changes 0.004 and -0.004 both round to 0 at two
  decimals, but \<open>toFixed(2)\<close> prints "0.00" and "-0.00", the cache keys differ, and the
  second call, in the same 5-minute bucket as the successful first one and with the same
  symbol and price, sends a request of its own.
\<close>

theorem C4_counterexample_negative_zero_text:
  "req_symbol btc_request_down = req_symbol btc_request_up
   \<and> rounded_to_two_decimals (currentPrice btc_request_down) =
       rounded_to_two_decimals (currentPrice btc_request_up)
   \<and> rounded_to_two_decimals (req_priceChangePercent24h btc_request_down) =
       rounded_to_two_decimals (req_priceChangePercent24h btc_request_up)
   \<and> (20000::nat) div 300000 = 10000 div 300000
   \<and> fst (getAIAnalysis example_runtime (Some ''sk-test'')
         (Response True 200 ''OK'' (Some narrative_body)) btc_request_up 10000 10000
         empty_narratives) = Inr narrative_result
   \<and> fst (snd (getAIAnalysis example_runtime (Some ''sk-test'')
         (Response True 200 ''OK'' (Some narrative_body)) btc_request_up 10000 10000
         empty_narratives)) = 1
   \<and> fst (snd (getAIAnalysis example_runtime (Some ''sk-test'')
         (Response True 200 ''OK'' (Some narrative_body)) btc_request_down 20000 20000
         (snd (snd (getAIAnalysis example_runtime (Some ''sk-test'')
            (Response True 200 ''OK'' (Some narrative_body)) btc_request_up 10000 10000
            empty_narratives))))) = 1"
proof -
  have same: "req_symbol btc_request_down = req_symbol btc_request_up
     \<and> rounded_to_two_decimals (currentPrice btc_request_down) =
         rounded_to_two_decimals (currentPrice btc_request_up)
     \<and> rounded_to_two_decimals (req_priceChangePercent24h btc_request_down) =
         rounded_to_two_decimals (req_priceChangePercent24h btc_request_up)"
    by (simp add: btc_request_up_def btc_request_down_def btc_request_def
        rounded_to_two_decimals_def)
  have miss: "fresh_analysis
      \<lparr>analysisCache =
         [cacheKey example_runtime btc_request_up 10000 \<mapsto>
            \<lparr>data = narrative_result, timestamp = 10000\<rparr>],
       latestSuccessfulAnalysis =
         [req_symbol btc_request_up \<mapsto> (''Bitcoin rose.'', 10000, btc_request_up)]\<rparr>
      (cacheKey example_runtime btc_request_down 20000) 20000 = None"
    by (simp add: fresh_analysis_def up_down_keys)
  have second: "fst (snd (getAIAnalysis example_runtime (Some ''sk-test'')
         (Response True 200 ''OK'' (Some narrative_body)) btc_request_down 20000 20000
         \<lparr>analysisCache =
            [cacheKey example_runtime btc_request_up 10000 \<mapsto>
               \<lparr>data = narrative_result, timestamp = 10000\<rparr>],
          latestSuccessfulAnalysis =
            [req_symbol btc_request_up \<mapsto> (''Bitcoin rose.'', 10000, btc_request_up)]\<rparr>)) = 1"
    using getAIAnalysis_sent_on_miss [OF miss] by (simp add: narrative_try)
  show ?thesis unfolding first_call_writes using same second by simp
qed

text \<open>
  Claim C9, as amended. Two calls with identical inputs, the second 10 seconds after the
  first, where the first sent a request and got a narrative and both calls fall into the
  same 5-minute bucket \<open>Math.floor(Date.now() / 300000)\<close>: the second call is answered
  from the cache, so exactly one request is sent in total.
\<close>

theorem C9_ten_seconds_apart_in_one_bucket:
  assumes "getAIAnalysis rt apiKey responseA request t0 now s0 = (Inr narrative, sentA, s1)"
      and "0 < sentA"
      and "(t0 + 10000) div 300000 = t0 div 300000"
  shows "getAIAnalysis rt apiKey responseB request (t0 + 10000) (now + 10000) s1 =
           (Inr narrative, 0, s1)
       \<and> sentA + fst (snd (getAIAnalysis rt apiKey responseB request (t0 + 10000)
                              (now + 10000) s1)) = 1"
proof -
  from getAIAnalysis_sent_success [OF assms(1,2)]
  have one: "sentA = 1"
    and s1: "analysisCache s1 =
      (analysisCache s0)(cacheKey rt request t0 \<mapsto> \<lparr>data = narrative, timestamp = now\<rparr>)"
    by simp_all
  have e: "analysisCache s1 (cacheKey rt request t0) = Some \<lparr>data = narrative, timestamp = now\<rparr>"
    by (simp add: s1)
  have c: "int (now + 10000) - int now < 300000" by simp
  have k: "cacheKey rt request (t0 + 10000) = cacheKey rt request t0"
    using refl refl refl assms(3) by (rule cacheKey_same_inputs)
  have hit: "getAIAnalysis rt apiKey responseB request (t0 + 10000) (now + 10000) s1 =
           (Inr narrative, 0, s1)"
    using e c k by (rule getAIAnalysis_hit)
  show ?thesis unfolding hit using one by simp
qed

theorem C9_witness_same_bucket:
  "getAIAnalysis example_runtime (Some ''sk-test'')
     (Response True 200 ''OK'' (Some narrative_body)) btc_request 10000 10000 empty_narratives =
     (Inr narrative_result, 1, btc_cached 10000)
   \<and> ((10000::nat) + 10000) div 300000 = 10000 div 300000
   \<and> getAIAnalysis example_runtime (Some ''sk-test'')
     (Response True 200 ''OK'' (Some narrative_body)) btc_request (10000 + 10000) (10000 + 10000)
     (btc_cached 10000) = (Inr narrative_result, 0, btc_cached 10000)"
proof -
  note first = first_call_from_empty [of 10000]
  have pos: "0 < (1::nat)" by simp
  have b: "((10000::nat) + 10000) div 300000 = 10000 div 300000" by simp
  from first b C9_ten_seconds_apart_in_one_bucket [OF first pos b,
      where responseB = "Response True 200 ''OK'' (Some narrative_body)"]
  show ?thesis by blast
qed

text \<open>
  Claim C9 as stated fails: the cache key changes at every multiple of 300000 ms, so a
  first call at 295000 and a second at 305000, 10 seconds apart with identical inputs,
  each send a request: two in total.
\<close>

theorem C9_counterexample_across_bucket_boundary:
  "(295000::nat) + 10000 = 305000
   \<and> getAIAnalysis example_runtime (Some ''sk-test'')
     (Response True 200 ''OK'' (Some narrative_body)) btc_request 295000 295000 empty_narratives =
     (Inr narrative_result, 1, btc_cached 295000)
   \<and> fst (getAIAnalysis example_runtime (Some ''sk-test'')
     (Response True 200 ''OK'' (Some narrative_body)) btc_request 305000 305000
     (btc_cached 295000)) = Inr narrative_result
   \<and> fst (snd (getAIAnalysis example_runtime (Some ''sk-test'')
     (Response True 200 ''OK'' (Some narrative_body)) btc_request 305000 305000
     (btc_cached 295000))) = 1
   \<and> (1::nat) + 1 \<noteq> 1"
  unfolding second_call_next_bucket first_call_from_empty by simp

end
